theory Spec2Isabelle
  imports Complex_Main "HOL-Library.Word"
begin

section \<open>The SSAP double dynamic-programming core of cath-tools\<close>

text \<open>
  A shallow embedding of the parts of \<^verbatim>\<open>entry_querier.cpp\<close>, \<^verbatim>\<open>ssap.cpp\<close>,
  \<^verbatim>\<open>context_res.h\<close> and \<^verbatim>\<open>alignment_refiner.cpp\<close> that the specification
  makes statements about. \<^verbatim>\<open>size_t\<close> is a 64-bit word whose arithmetic wraps,
  \<^verbatim>\<open>score_type\<close> (\<^verbatim>\<open>ptrdiff_t\<close>) is an integer, a \<^verbatim>\<open>double\<close> is a real
  number and its operations round, a thrown exception is the left injection of a sum,
  and the global variables of \<^verbatim>\<open>ssap.cpp\<close> are a record that the functions pass on.
  Functions and types whose definitions are not among the sources are parameters.
\<close>

subsection \<open>entry\_querier.cpp\<close>

type_synonym size_t = "64 word"

text \<open>
  \<^verbatim>\<open>_num_comparable_impl\<close>: the guard and the product are computed on \<^verbatim>\<open>size_t\<close>,
  so \<open>prm_num_excluded + 1\<close>, the two subtractions and the product wrap around.
\<close>

definition num_comparable_impl :: "size_t \<Rightarrow> size_t \<Rightarrow> size_t" where
  "num_comparable_impl prm_num_excluded prm_length =
     (if prm_length \<le> prm_num_excluded + 1 then 0
      else (prm_length - prm_num_excluded) * (prm_length - prm_num_excluded - 1))"

text \<open>
  The specification's reference value: the number of ordered pairs \<open>(i, j)\<close> of indices
  below \<open>L\<close> with \<open>i \<noteq> j\<close> and \<open>\<bar>i - j\<bar> > n\<close>, counted by enumeration.
\<close>

definition brute_force_num_comparable :: "nat \<Rightarrow> nat \<Rightarrow> nat" where
  "brute_force_num_comparable n L =
     card (Set.filter (\<lambda>(i, j). i \<noteq> j \<and> int n < \<bar>int i - int j\<bar>) ({..<L} \<times> {..<L}))"

text \<open>The specification's closed form, on unbounded naturals.\<close>

definition closed_form_num_comparable :: "nat \<Rightarrow> nat \<Rightarrow> nat" where
  "closed_form_num_comparable n L = (if n + 1 < L then (L - n) * (L - n - 1) else 0)"

subsection \<open>Double-precision arithmetic\<close>

text \<open>
  A \<^verbatim>\<open>double\<close> is represented by the real number it denotes, and every arithmetic
  operation on \<^verbatim>\<open>double\<close>s yields the exact result rounded to the nearest number with
  a 53-bit significand, ties to even, as IEEE 754 prescribes for binary64. The exponent
  is not bounded: overflow to an infinity, underflow to a subnormal number and NaN are
  outside the model. \<^verbatim>\<open>std::sqrt\<close> rounds correctly; \<^verbatim>\<open>std::log\<close> is taken to do
  so as well.
\<close>

definition round_ties_to_even :: "real \<Rightarrow> int" where
  "round_ties_to_even y =
     (let n = \<lfloor>y\<rfloor>; r = y - of_int n
      in if r < 1 / 2 then n else if 1 / 2 < r then n + 1 else if even n then n else n + 1)"

definition pow2 :: "int \<Rightarrow> real" where
  "pow2 k = (if 0 \<le> k then 2 ^ nat k else 1 / 2 ^ nat (- k))"

text \<open>The exponent \<open>e\<close> with \<open>2\<^sup>e \<le> \<bar>x\<bar> < 2\<^sup>e\<^sup>+\<^sup>1\<close>, and the spacing of the doubles there.\<close>

definition binade :: "real \<Rightarrow> int" where
  "binade x = \<lfloor>log 2 \<bar>x\<bar>\<rfloor>"

definition quantum :: "real \<Rightarrow> real" where
  "quantum x = pow2 (binade x - 52)"

definition to_double :: "real \<Rightarrow> real" where
  "to_double x =
     (if x = 0 then 0 else quantum x * of_int (round_ties_to_even (x / quantum x)))"


definition dbl_sub :: "real \<Rightarrow> real \<Rightarrow> real" where
  "dbl_sub x y = to_double (x - y)"

definition dbl_mul :: "real \<Rightarrow> real \<Rightarrow> real" where
  "dbl_mul x y = to_double (x * y)"

definition dbl_div :: "real \<Rightarrow> real \<Rightarrow> real" where
  "dbl_div x y = to_double (x / y)"


definition dbl_log :: "real \<Rightarrow> real" where
  "dbl_log x = to_double (ln x)"

text \<open>\<^verbatim>\<open>numeric_cast<double>\<close> of a \<^verbatim>\<open>size_t\<close>, of a count and of a score.\<close>

definition double_of_size_t :: "size_t \<Rightarrow> real" where
  "double_of_size_t n = to_double (real (unat n))"

definition double_of_nat :: "nat \<Rightarrow> real" where
  "double_of_nat n = to_double (real n)"

definition double_of_score :: "int \<Rightarrow> real" where
  "double_of_score i = to_double (real_of_int i)"

subsection \<open>Exceptions and numeric casts\<close>

text \<open>
  The exceptions that the modelled code can raise. \<^verbatim>\<open>boost::numeric_cast\<close> raises
  \<open>bad_numeric_cast\<close> when the value does not fit the target type. A division of two
  \<^verbatim>\<open>double\<close>s has a real number as its result only when the divisor is not \<open>0.0\<close>;
  otherwise it yields an infinity or a NaN. Where the code guards a division, the model
  marks the unguarded case with \<open>quotient_by_zero\<close>, which is no C++ exception but ends
  the modelled computation in the same way.
\<close>

datatype exn =
    bad_numeric_cast
  | invalid_argument_exception
  | not_implemented_exception
  | quotient_by_zero

type_synonym score_type = int

text \<open>
  \<^verbatim>\<open>numeric_cast<score_type>\<close> of a \<^verbatim>\<open>double\<close>: a range check against
  \<^verbatim>\<open>ptrdiff_t\<close>, then truncation towards zero.
\<close>

definition truncate_towards_zero :: "real \<Rightarrow> int" where
  "truncate_towards_zero x = (if 0 \<le> x then \<lfloor>x\<rfloor> else \<lceil>x\<rceil>)"

definition numeric_cast_score_type :: "real \<Rightarrow> exn + score_type" where
  "numeric_cast_score_type x =
     (if x \<le> - (2 ^ 63) - 1 \<or> 2 ^ 63 \<le> x then Inl bad_numeric_cast
      else Inr (truncate_towards_zero x))"

text \<open>\<^verbatim>\<open>numeric_cast<size_t>\<close> of an \<^verbatim>\<open>int\<close>: negative values are refused.\<close>

definition numeric_cast_size_t :: "int \<Rightarrow> exn + size_t" where
  "numeric_cast_size_t i = (if i < 0 then Inl bad_numeric_cast else Inr (word_of_int i))"

definition checked_dbl_div :: "real \<Rightarrow> real \<Rightarrow> exn + real" where
  "checked_dbl_div x y = (if y = 0 then Inl quotient_by_zero else Inr (dbl_div x y))"

subsection \<open>Alignments\<close>

text \<open>
  Modelled from the spec: the \<^verbatim>\<open>alignment\<close> class (its header is not among the
  sources). An alignment is an ordered sequence of columns; each column holds, for each
  of the entries, either a present 0-based position or nothing. The number of entries is
  fixed at construction. Entries 0 and 1 are the two sides of a pair alignment.
\<close>

record alignment =
  num_entries :: nat
  columns :: "size_t option list list"

definition NUM_ENTRIES_IN_PAIR_ALIGNMENT :: nat where
  "NUM_ENTRIES_IN_PAIR_ALIGNMENT = 2"

definition PAIR_A_IDX :: nat where "PAIR_A_IDX = 0"
definition PAIR_B_IDX :: nat where "PAIR_B_IDX = 1"

text \<open>Modelled from the spec: the constructor taking a number of entries gives no columns.\<close>

definition empty_alignment :: "nat \<Rightarrow> alignment" where
  "empty_alignment n = \<lparr> num_entries = n, columns = [] \<rparr>"

definition aln_length :: "alignment \<Rightarrow> nat" where
  "aln_length aln = length (columns aln)"

definition position_of_entry_of_index :: "alignment \<Rightarrow> nat \<Rightarrow> nat \<Rightarrow> size_t option" where
  "position_of_entry_of_index aln entry idx =
     (if idx < length (columns aln) \<and> entry < length (columns aln ! idx)
      then columns aln ! idx ! entry else None)"

definition has_both_positions_of_index :: "alignment \<Rightarrow> nat \<Rightarrow> bool" where
  "has_both_positions_of_index aln idx =
     (position_of_entry_of_index aln PAIR_A_IDX idx \<noteq> None
      \<and> position_of_entry_of_index aln PAIR_B_IDX idx \<noteq> None)"

text \<open>
  The offset-1 position is the 0-based position plus one. The code reads it only after
  \<open>has_both_positions_of_index\<close> has held; the value for an absent position is never used.
\<close>

definition get_a_offset_1_position_of_index :: "alignment \<Rightarrow> nat \<Rightarrow> size_t" where
  "get_a_offset_1_position_of_index aln idx =
     (case position_of_entry_of_index aln PAIR_A_IDX idx of Some p \<Rightarrow> p + 1 | None \<Rightarrow> 0)"

definition get_b_offset_1_position_of_index :: "alignment \<Rightarrow> nat \<Rightarrow> size_t" where
  "get_b_offset_1_position_of_index aln idx =
     (case position_of_entry_of_index aln PAIR_B_IDX idx of Some p \<Rightarrow> p + 1 | None \<Rightarrow> 0)"

subsection \<open>The entry querier and the other collaborators of ssap.cpp\<close>

text \<open>
  The virtual interface \<^verbatim>\<open>entry_querier\<close>, with its two implementations for residues
  and secondary structures, is a record of the member functions that the modelled code
  calls. The type of proteins is left open.
\<close>

record 'protein entry_querier =
  temp_hacky_is_residue :: bool
  get_length :: "'protein \<Rightarrow> size_t"
  num_excluded_on_either_size :: size_t
  optimum_single_score :: real
  get_gap_penalty_ratio :: real
  distance_score__offset_1 ::
    "'protein \<Rightarrow> 'protein \<Rightarrow> size_t \<Rightarrow> size_t \<Rightarrow> size_t \<Rightarrow> size_t \<Rightarrow> score_type"
  are_comparable__offset_1 ::
    "'protein \<Rightarrow> 'protein \<Rightarrow> size_t \<Rightarrow> size_t \<Rightarrow> size_t \<Rightarrow> size_t \<Rightarrow> bool"

definition get_gap_penalty :: "'protein entry_querier \<Rightarrow> real" where
  "get_gap_penalty prm_entry_querier =
     dbl_mul (get_gap_penalty_ratio prm_entry_querier) (optimum_single_score prm_entry_querier)"

definition num_comparable :: "'protein entry_querier \<Rightarrow> size_t \<Rightarrow> size_t" where
  "num_comparable prm_entry_querier prm_length =
     num_comparable_impl (num_excluded_on_either_size prm_entry_querier) prm_length"

text \<open>
  Functions that \<^verbatim>\<open>ssap.cpp\<close> calls and whose definitions are not among the sources:
  the check of an offset-1 index, the windowing arithmetic, and the lower-level dynamic
  programming (the construction of the score source from the view-from pair, masked by
  the lower mask matrix or not, followed by \<^verbatim>\<open>ssap_code_dyn_prog_aligner().align\<close>).
  The sequence identity depends on the amino acids of the residues, which the model does
  not look into.
\<close>

type_synonym score_alignment_pair = "score_type \<times> alignment"

record 'protein collaborators =
  check_offset_1 :: "size_t \<Rightarrow> exn option"
  get_window_start_a_for_b__offset_1 :: "size_t \<Rightarrow> size_t \<Rightarrow> size_t \<Rightarrow> size_t \<Rightarrow> size_t"
  get_window_stop_a_for_b__offset_1 :: "size_t \<Rightarrow> size_t \<Rightarrow> size_t \<Rightarrow> size_t \<Rightarrow> size_t"
  get_window_matrix_a_index__offset_1 ::
    "size_t \<Rightarrow> size_t \<Rightarrow> size_t \<Rightarrow> size_t \<Rightarrow> size_t \<Rightarrow> int"
  align_lower_matrix ::
    "'protein entry_querier \<Rightarrow> 'protein \<Rightarrow> 'protein \<Rightarrow> size_t \<Rightarrow> size_t
       \<Rightarrow> (size_t \<Rightarrow> size_t \<Rightarrow> bool) option \<Rightarrow> score_type \<Rightarrow> size_t \<Rightarrow> score_alignment_pair"
  calculate_sequence_identity :: "alignment \<Rightarrow> 'protein \<Rightarrow> 'protein \<Rightarrow> real"

subsection \<open>ssap.cpp: the global variables\<close>

definition NUM_SELECTIONS_TO_SAVE :: size_t where
  "NUM_SELECTIONS_TO_SAVE = 20"

definition MIN_LOWER_MAT_RES_SCORE :: score_type where
  "MIN_LOWER_MAT_RES_SCORE = 10"

text \<open>
  The matrices are functions from a row and a column to a value, and the vector of
  selections is a function from an index to a pair; only \<open>global_upper_score_matrix\<close>
  is written by the modelled code.
\<close>

record ssap_globals =
  global_upper_score_matrix :: "size_t \<Rightarrow> size_t \<Rightarrow> score_type"
  global_upper_res_mask_matrix :: "size_t \<Rightarrow> size_t \<Rightarrow> bool"
  global_upper_ss_mask_matrix :: "size_t \<Rightarrow> size_t \<Rightarrow> bool"
  global_lower_mask_matrix :: "size_t \<Rightarrow> size_t \<Rightarrow> bool"
  global_selections :: "size_t \<Rightarrow> size_t \<times> size_t"
  global_num_selections :: size_t
  global_window :: size_t
  global_res_sim_cutoff :: size_t
  global_gap_penalty :: score_type
  global_align_pass :: bool
  global_frac_selected :: real

text \<open>\<^verbatim>\<open>reset_ssap_global_variables\<close>, for the variables above.\<close>

definition reset_ssap_global_variables :: ssap_globals where
  "reset_ssap_global_variables =
     \<lparr> global_upper_score_matrix = (\<lambda>_ _. 0),
       global_upper_res_mask_matrix = (\<lambda>_ _. False),
       global_upper_ss_mask_matrix = (\<lambda>_ _. False),
       global_lower_mask_matrix = (\<lambda>_ _. False),
       global_selections = (\<lambda>_. (0, 0)),
       global_num_selections = 0,
       global_window = 0,
       global_res_sim_cutoff = 150,
       global_gap_penalty = 50,
       global_align_pass = False,
       global_frac_selected = 0 \<rparr>"

subsection \<open>ssap.cpp: compare\_upper\_cell\<close>

datatype compare_upper_cell_result = ZERO | NON_ZERO_BELOW_THRESHOLD | SCORED

text \<open>
  The normalisation of the lower-level score of a residue comparison: the quotient is
  computed only when the normalisation is not \<open>0.0\<close>.
\<close>

definition normalise_residue_score :: "score_type \<Rightarrow> real \<Rightarrow> exn + score_type" where
  "normalise_residue_score score prm_normalisation =
     (if prm_normalisation \<noteq> 0
      then (case checked_dbl_div (double_of_score score) prm_normalisation of
              Inl e \<Rightarrow> Inl e
            | Inr ratio \<Rightarrow> numeric_cast_score_type ratio)
      else Inr 0)"

text \<open>
  The lower-level alignment that \<open>compare_upper_cell\<close> computes: on an aligning pass from
  the entry querier's scores, otherwise from those scores masked by
  \<open>global_lower_mask_matrix\<close>.
\<close>

definition lower_score_and_alignment ::
  "'protein collaborators \<Rightarrow> 'protein entry_querier \<Rightarrow> 'protein \<Rightarrow> 'protein
     \<Rightarrow> size_t \<Rightarrow> size_t \<Rightarrow> ssap_globals \<Rightarrow> score_alignment_pair" where
  "lower_score_and_alignment cs prm_entry_querier prm_protein_a prm_protein_b
       prm_a_view_from_index__offset_1 prm_b_view_from_index__offset_1 g =
     align_lower_matrix cs prm_entry_querier prm_protein_a prm_protein_b
       (prm_a_view_from_index__offset_1 - 1) (prm_b_view_from_index__offset_1 - 1)
       (if global_align_pass g then None else Some (global_lower_mask_matrix g))
       (global_gap_penalty g) (global_window g)"

text \<open>
  The loop that traces the lower-level alignment onto the upper matrix, over the
  alignment's column indices in order. A negative window index stops it with the
  exception of the \<^verbatim>\<open>numeric_cast\<close>, after the additions of the earlier columns.
\<close>

fun trace_lower_alignment ::
  "'protein collaborators \<Rightarrow> 'protein entry_querier \<Rightarrow> 'protein \<Rightarrow> 'protein
     \<Rightarrow> size_t \<Rightarrow> size_t \<Rightarrow> size_t \<Rightarrow> alignment \<Rightarrow> nat list
     \<Rightarrow> (size_t \<Rightarrow> size_t \<Rightarrow> score_type)
     \<Rightarrow> exn option \<times> (size_t \<Rightarrow> size_t \<Rightarrow> score_type)" where
  "trace_lower_alignment cs q pa pb a_from b_from window my_alignment [] m = (None, m)"
| "trace_lower_alignment cs q pa pb a_from b_from window my_alignment (alignment_ctr # ctrs) m =
     (if has_both_positions_of_index my_alignment alignment_ctr then
        (let a_dest_to_index__offset_1 = get_a_offset_1_position_of_index my_alignment alignment_ctr;
             b_dest_to_index__offset_1 = get_b_offset_1_position_of_index my_alignment alignment_ctr;
             a_matrix_idx__offset_1 = get_window_matrix_a_index__offset_1 cs
               (get_length q pa) (get_length q pb) window
               a_dest_to_index__offset_1 b_dest_to_index__offset_1;
             score_addend = distance_score__offset_1 q pa pb a_from b_from
               a_dest_to_index__offset_1 b_dest_to_index__offset_1
         in (case numeric_cast_size_t a_matrix_idx__offset_1 of
               Inl e \<Rightarrow> (Some e, m)
             | Inr col \<Rightarrow>
                 trace_lower_alignment cs q pa pb a_from b_from window my_alignment ctrs
                   (m (b_dest_to_index__offset_1 :=
                         (m b_dest_to_index__offset_1)
                           (col := m b_dest_to_index__offset_1 col + score_addend)))))
      else trace_lower_alignment cs q pa pb a_from b_from window my_alignment ctrs m)"

definition compare_upper_cell ::
  "'protein collaborators \<Rightarrow> 'protein \<Rightarrow> 'protein \<Rightarrow> size_t \<Rightarrow> size_t
     \<Rightarrow> 'protein entry_querier \<Rightarrow> real \<Rightarrow> ssap_globals
     \<Rightarrow> (exn + compare_upper_cell_result) \<times> ssap_globals" where
  "compare_upper_cell cs prm_protein_a prm_protein_b prm_a_view_from_index__offset_1
       prm_b_view_from_index__offset_1 prm_entry_querier prm_normalisation g =
     (let res_not_ss__hacky = temp_hacky_is_residue prm_entry_querier in
      (case check_offset_1 cs prm_a_view_from_index__offset_1 of
         Some e \<Rightarrow> (Inl e, g)
       | None \<Rightarrow>
      (case check_offset_1 cs prm_b_view_from_index__offset_1 of
         Some e \<Rightarrow> (Inl e, g)
       | None \<Rightarrow>
      (let score_and_alignment = lower_score_and_alignment cs prm_entry_querier
             prm_protein_a prm_protein_b
             prm_a_view_from_index__offset_1 prm_b_view_from_index__offset_1 g;
           my_alignment = snd score_and_alignment
       in (case (if res_not_ss__hacky
                 then normalise_residue_score (fst score_and_alignment) prm_normalisation
                 else Inr (fst score_and_alignment)) of
             Inl e \<Rightarrow> (Inl e, g)
           | Inr score \<Rightarrow>
               (if score = 0 then (Inr ZERO, g)
                else if res_not_ss__hacky \<and> score < MIN_LOWER_MAT_RES_SCORE
                then (Inr NON_ZERO_BELOW_THRESHOLD, g)
                else
                  (case trace_lower_alignment cs prm_entry_querier prm_protein_a prm_protein_b
                          prm_a_view_from_index__offset_1 prm_b_view_from_index__offset_1
                          (global_window g) my_alignment [0 ..< aln_length my_alignment]
                          (global_upper_score_matrix g) of
                     (Some e, m) \<Rightarrow> (Inl e, g \<lparr> global_upper_score_matrix := m \<rparr>)
                   | (None, m) \<Rightarrow> (Inr SCORED, g \<lparr> global_upper_score_matrix := m \<rparr>))))))))"
text \<open>
  The specification's wording of what a scored cell adds to the upper matrix: column
  \<open>k\<close> of the lower-level alignment contributes to the cell in row \<open>row\<close> and column
  \<open>col\<close> the distance score from the view-from pair to its pair of positions, when both
  positions are present and that cell is the one of its positions.
\<close>

definition upper_cell_addend ::
  "'protein collaborators \<Rightarrow> 'protein entry_querier \<Rightarrow> 'protein \<Rightarrow> 'protein
     \<Rightarrow> size_t \<Rightarrow> size_t \<Rightarrow> size_t \<Rightarrow> alignment \<Rightarrow> size_t \<Rightarrow> size_t \<Rightarrow> nat \<Rightarrow> score_type" where
  "upper_cell_addend cs q pa pb a_from b_from window aln row col k =
     (if has_both_positions_of_index aln k
         \<and> get_b_offset_1_position_of_index aln k = row
         \<and> numeric_cast_size_t
             (get_window_matrix_a_index__offset_1 cs (get_length q pa) (get_length q pb) window
                (get_a_offset_1_position_of_index aln k)
                (get_b_offset_1_position_of_index aln k)) = Inr col
      then distance_score__offset_1 q pa pb a_from b_from
             (get_a_offset_1_position_of_index aln k) (get_b_offset_1_position_of_index aln k)
      else 0)"

subsection \<open>ssap.cpp: populate\_upper\_score\_matrix\<close>







subsection \<open>ssap.cpp: residues\_have\_similar\_area\_angle\_props\<close>

text \<open>
  Modelled from the spec: a residue exposes its backbone dihedral angles phi and psi and
  its solvent accessibility (the header of \<^verbatim>\<open>residue\<close> is not among the sources).
  The accessibility is a \<^verbatim>\<open>size_t\<close>, as the sum that the code stores it in;
  \<open>get_accessi_of_residue\<close> is the \<^verbatim>\<open>int\<close> that the code calls the buried value. An
  \<^verbatim>\<open>int\<close> is a 32-bit word read in two's complement; a difference of two of them
  that does not fit, which C++ leaves undefined, wraps here. Angles are kept in degrees,
  so \<open>angle_in_degrees\<close> reads them off.
\<close>

type_synonym c_int = "32 word"

record residue =
  get_access :: size_t
  get_accessi_of_residue :: c_int
  get_phi_angle :: real
  get_psi_angle :: real

definition angle_in_degrees :: "real \<Rightarrow> real" where
  "angle_in_degrees a = a"

text \<open>
  Modelled from the spec: the template \<^verbatim>\<open>difference\<close> is the absolute difference,
  the larger value minus the smaller; here are its instances for \<^verbatim>\<open>int\<close> and for
  \<^verbatim>\<open>double\<close>.
\<close>

definition difference_int :: "c_int \<Rightarrow> c_int \<Rightarrow> c_int" where
  "difference_int a b = (if a <s b then b - a else a - b)"

definition difference_double :: "real \<Rightarrow> real \<Rightarrow> real" where
  "difference_double a b = (if a < b then dbl_sub b a else dbl_sub a b)"

text \<open>
  \<^verbatim>\<open>std::round\<close> rounds to the nearest integer, halves away from zero; the result
  is a \<^verbatim>\<open>double\<close> again. \<^verbatim>\<open>numeric_cast<size_t>\<close> of a \<^verbatim>\<open>double\<close> checks the range
  of \<^verbatim>\<open>size_t\<close> and truncates.
\<close>

definition std_round :: "real \<Rightarrow> real" where
  "std_round x = of_int (if 0 \<le> x then \<lfloor>x + 1 / 2\<rfloor> else \<lceil>x - 1 / 2\<rceil>)"

definition numeric_cast_size_t_of_double :: "real \<Rightarrow> exn + size_t" where
  "numeric_cast_size_t_of_double x =
     (if x \<le> - 1 \<or> 2 ^ 64 \<le> x then Inl bad_numeric_cast
      else Inr (word_of_int (truncate_towards_zero x)))"

text \<open>
  The three casts are evaluated in the order of the declarations, and each can raise
  \<open>bad_numeric_cast\<close>; the sums and the comparison are those of \<^verbatim>\<open>size_t\<close>.
\<close>

definition residues_have_similar_area_angle_props ::
  "ssap_globals \<Rightarrow> residue \<Rightarrow> residue \<Rightarrow> exn + bool" where
  "residues_have_similar_area_angle_props g prm_residue_i prm_residue_j =
     (let buried_i = get_accessi_of_residue prm_residue_i;
          buried_j = get_accessi_of_residue prm_residue_j
      in (case numeric_cast_size_t (sint (difference_int buried_i buried_j)) of
            Inl e \<Rightarrow> Inl e
          | Inr buried_difference \<Rightarrow>
      (case numeric_cast_size_t_of_double (std_round (difference_double
              (angle_in_degrees (get_phi_angle prm_residue_i))
              (angle_in_degrees (get_phi_angle prm_residue_j)))) of
            Inl e \<Rightarrow> Inl e
          | Inr phi_angle_diff_in_degrees \<Rightarrow>
      (case numeric_cast_size_t_of_double (std_round (difference_double
              (angle_in_degrees (get_psi_angle prm_residue_i))
              (angle_in_degrees (get_psi_angle prm_residue_j)))) of
            Inl e \<Rightarrow> Inl e
          | Inr psi_angle_diff_in_degrees \<Rightarrow>
              (let mean_angle_diff_in_degrees =
                     (phi_angle_diff_in_degrees + psi_angle_diff_in_degrees) div 2;
                   accessibility_sum = get_access prm_residue_i + get_access prm_residue_j
               in Inr (buried_difference + accessibility_sum + mean_angle_diff_in_degrees
                         < global_res_sim_cutoff g))))))"

text \<open>
  The three terms of the specification's sum, as the integers they denote: the absolute
  difference of the buried values, and the rounded absolute difference, in degrees, of
  two angles.
\<close>

definition buried_diff :: "residue \<Rightarrow> residue \<Rightarrow> int" where
  "buried_diff res_i res_j
     = \<bar>sint (get_accessi_of_residue res_i) - sint (get_accessi_of_residue res_j)\<bar>"

definition rounded_angle_diff :: "real \<Rightarrow> real \<Rightarrow> int" where
  "rounded_angle_diff angle_i angle_j
     = round (to_double \<bar>angle_in_degrees angle_i - angle_in_degrees angle_j\<bar>)"

subsection \<open>ssap.cpp: calculate\_log\_score\<close>

text \<open>
  Modelled from the spec: \<^verbatim>\<open>ssap_scores\<close> (its header is not among the sources) is a
  record of scores, each of which stays unset until its setter is called.
\<close>

record ssap_scores =
  ssap_score_over_compared :: "real option"
  ssap_score_over_smaller :: "real option"
  ssap_score_over_larger :: "real option"
  percentage_aligned_pairs_over_larger :: "real option"
  num_aligned_pairs_of :: "nat option"
  seq_id :: "real option"

text \<open>
  The first pair of loops: for every aligned column \<open>i\<close> and every aligned column \<open>j\<close>
  whose entries are comparable from \<open>i\<close>, the distance score is added to the cell of
  \<open>j\<close>'s positions, and the pair is counted.
\<close>

definition add_pair_score ::
  "'protein entry_querier \<Rightarrow> 'protein \<Rightarrow> 'protein \<Rightarrow> alignment \<Rightarrow> size_t \<Rightarrow> size_t
     \<Rightarrow> nat \<times> (size_t \<Rightarrow> size_t \<Rightarrow> score_type) \<Rightarrow> nat
     \<Rightarrow> nat \<times> (size_t \<Rightarrow> size_t \<Rightarrow> score_type)" where
  "add_pair_score q pa pb prm_alignment i_posn_a i_posn_b cm alignment_ctr_j =
     (if has_both_positions_of_index prm_alignment alignment_ctr_j then
        (let j_posn_a = get_a_offset_1_position_of_index prm_alignment alignment_ctr_j;
             j_posn_b = get_b_offset_1_position_of_index prm_alignment alignment_ctr_j
         in if are_comparable__offset_1 q pa pb i_posn_a i_posn_b j_posn_a j_posn_b then
              (fst cm + 1,
               (snd cm) (j_posn_b := (snd cm j_posn_b)
                  (j_posn_a := snd cm j_posn_b j_posn_a
                     + distance_score__offset_1 q pa pb i_posn_a i_posn_b j_posn_a j_posn_b)))
            else cm)
      else cm)"

definition compare_from_column ::
  "'protein entry_querier \<Rightarrow> 'protein \<Rightarrow> 'protein \<Rightarrow> alignment
     \<Rightarrow> nat \<times> (size_t \<Rightarrow> size_t \<Rightarrow> score_type) \<Rightarrow> nat
     \<Rightarrow> nat \<times> (size_t \<Rightarrow> size_t \<Rightarrow> score_type)" where
  "compare_from_column q pa pb prm_alignment cm alignment_ctr_i =
     (if has_both_positions_of_index prm_alignment alignment_ctr_i then
        foldl (add_pair_score q pa pb prm_alignment
                 (get_a_offset_1_position_of_index prm_alignment alignment_ctr_i)
                 (get_b_offset_1_position_of_index prm_alignment alignment_ctr_i))
          cm [0 ..< aln_length prm_alignment]
      else cm)"

definition final_score_matrix_of ::
  "'protein entry_querier \<Rightarrow> 'protein \<Rightarrow> 'protein \<Rightarrow> alignment
     \<Rightarrow> nat \<times> (size_t \<Rightarrow> size_t \<Rightarrow> score_type)" where
  "final_score_matrix_of q pa pb prm_alignment =
     foldl (compare_from_column q pa pb prm_alignment) (0, \<lambda>_ _. 0)
       [0 ..< aln_length prm_alignment]"

text \<open>The variables of the second loop, which accumulates the scores along the path.\<close>

record path_walk =
  prev_had_both_posns :: bool
  is_first_with_both_posns :: bool
  prev_a_position :: size_t
  prev_b_position :: size_t
  num_aligned_pairs :: nat
  maxscore :: score_type

definition initial_path_walk :: path_walk where
  "initial_path_walk =
     \<lparr> prev_had_both_posns = False, is_first_with_both_posns = True,
       prev_a_position = 0, prev_b_position = 0, num_aligned_pairs = 0, maxscore = 0 \<rparr>"

text \<open>The condition under which the loop body sets \<open>gap\<close> to the gap penalty.\<close>

definition charges_gap :: "path_walk \<Rightarrow> size_t \<Rightarrow> size_t \<Rightarrow> bool" where
  "charges_gap w a_position b_position =
     (\<not> is_first_with_both_posns w
      \<and> (\<not> prev_had_both_posns w
         \<or> a_position \<noteq> prev_a_position w + 1
         \<or> b_position \<noteq> prev_b_position w + 1))"

text \<open>
  One round of the loop. \<open>gap_cast\<close> is the outcome of
  \<^verbatim>\<open>numeric_cast<score_type>( get_gap_penalty( prm_entry_querier ) )\<close>, which the code
  evaluates whenever it charges a gap.
\<close>

definition accumulate_column ::
  "exn + score_type \<Rightarrow> (size_t \<Rightarrow> size_t \<Rightarrow> score_type) \<Rightarrow> alignment \<Rightarrow> path_walk \<Rightarrow> nat
     \<Rightarrow> exn + path_walk" where
  "accumulate_column gap_cast final_score_matrix prm_alignment w alignment_ctr =
     (let has_both_posns = has_both_positions_of_index prm_alignment alignment_ctr;
          a_position = get_a_offset_1_position_of_index prm_alignment alignment_ctr;
          b_position = get_b_offset_1_position_of_index prm_alignment alignment_ctr
      in (case (if has_both_posns then
                  (case (if charges_gap w a_position b_position then gap_cast else Inr 0) of
                     Inl e \<Rightarrow> Inl e
                   | Inr gap \<Rightarrow>
                       Inr (w \<lparr> maxscore := maxscore w
                                   + (final_score_matrix b_position a_position - gap),
                                 num_aligned_pairs := num_aligned_pairs w + 1,
                                 is_first_with_both_posns := False \<rparr>))
                else Inr w) of
            Inl e \<Rightarrow> Inl e
          | Inr w' \<Rightarrow>
              Inr (w' \<lparr> prev_had_both_posns := has_both_posns,
                        prev_a_position :=
                          (if has_both_posns then a_position else prev_a_position w'),
                        prev_b_position :=
                          (if has_both_posns then b_position else prev_b_position w') \<rparr>)))"

fun accumulate_along_path ::
  "exn + score_type \<Rightarrow> (size_t \<Rightarrow> size_t \<Rightarrow> score_type) \<Rightarrow> alignment \<Rightarrow> nat list
     \<Rightarrow> path_walk \<Rightarrow> exn + path_walk" where
  "accumulate_along_path gap_cast final_score_matrix prm_alignment [] w = Inr w"
| "accumulate_along_path gap_cast final_score_matrix prm_alignment (alignment_ctr # ctrs) w =
     (case accumulate_column gap_cast final_score_matrix prm_alignment w alignment_ctr of
        Inl e \<Rightarrow> Inl e
      | Inr w' \<Rightarrow> accumulate_along_path gap_cast final_score_matrix prm_alignment ctrs w')"

text \<open>
  The two lines that the code repeats for each of its three log scores:
  \<^verbatim>\<open>numeric_cast<double>(maxscore) * final_score_scaling / denominator\<close> and
  \<^verbatim>\<open>100.0 * std::log(scaled_avg_single_score) / max_log\<close>.
\<close>

definition final_score_over :: "score_type \<Rightarrow> real \<Rightarrow> real \<Rightarrow> real" where
  "final_score_over maxscore_value denominator max_log =
     (let final_score_scaling = 1000;
          scaled_avg_single_score =
            dbl_div (dbl_mul (double_of_score maxscore_value) final_score_scaling) denominator
      in dbl_div (dbl_mul 100 (dbl_log scaled_avg_single_score)) max_log)"

text \<open>
  The part of \<open>calculate_log_score\<close> after the flooring of \<open>maxscore\<close> at 0: \<open>maxscore_value\<close>
  is the floored total.
\<close>

definition scores_of_total ::
  "'protein collaborators \<Rightarrow> alignment \<Rightarrow> 'protein \<Rightarrow> 'protein \<Rightarrow> 'protein entry_querier
     \<Rightarrow> nat \<Rightarrow> nat \<Rightarrow> score_type \<Rightarrow> ssap_scores" where
  "scores_of_total cs prm_alignment prm_protein_a prm_protein_b prm_entry_querier
       count num_aligned maxscore_value =
     (let length_a = get_length prm_entry_querier prm_protein_a;
          length_b = get_length prm_entry_querier prm_protein_b;
          final_score_scaling = 1000;
          max_log = dbl_log (dbl_mul (optimum_single_score prm_entry_querier)
                               final_score_scaling);
          min_length = min length_a length_b;
          num_comparable_over_min = num_comparable prm_entry_querier min_length;
          max_length = max length_a length_b;
          num_comparable_over_max = num_comparable prm_entry_querier max_length;
          is_residue = temp_hacky_is_residue prm_entry_querier
      in \<lparr> ssap_score_over_compared =
             (if maxscore_value \<noteq> 0 \<and> count \<noteq> 0
              then Some (final_score_over maxscore_value (double_of_nat count) max_log)
              else None),
           ssap_score_over_smaller =
             (if maxscore_value \<noteq> 0 \<and> 0 < num_comparable_over_min
              then Some (final_score_over maxscore_value
                           (double_of_size_t num_comparable_over_min) max_log)
              else None),
           ssap_score_over_larger =
             (if maxscore_value \<noteq> 0 \<and> 0 < num_comparable_over_max
              then Some (final_score_over maxscore_value
                           (double_of_size_t num_comparable_over_max) max_log)
              else None),
           percentage_aligned_pairs_over_larger =
             (if is_residue \<and> 0 < num_aligned \<and> max_length \<noteq> 0
              then Some (dbl_div (dbl_mul 100 (double_of_nat num_aligned))
                           (double_of_size_t max_length))
              else None),
           num_aligned_pairs_of = (if is_residue then Some num_aligned else None),
           seq_id =
             (if is_residue
              then Some (calculate_sequence_identity cs prm_alignment prm_protein_a prm_protein_b)
              else None) \<rparr>)"

definition calculate_log_score ::
  "'protein collaborators \<Rightarrow> alignment \<Rightarrow> 'protein \<Rightarrow> 'protein \<Rightarrow> 'protein entry_querier
     \<Rightarrow> exn + ssap_scores" where
  "calculate_log_score cs prm_alignment prm_protein_a prm_protein_b prm_entry_querier =
     (let count_and_matrix =
            final_score_matrix_of prm_entry_querier prm_protein_a prm_protein_b prm_alignment
      in (case accumulate_along_path
                (numeric_cast_score_type (get_gap_penalty prm_entry_querier))
                (snd count_and_matrix) prm_alignment
                [0 ..< aln_length prm_alignment] initial_path_walk of
            Inl e \<Rightarrow> Inl e
          | Inr w \<Rightarrow>
              Inr (scores_of_total cs prm_alignment prm_protein_a prm_protein_b
                     prm_entry_querier (fst count_and_matrix) (num_aligned_pairs w)
                     (max 0 (maxscore w)))))"

text \<open>
  The specification's wording of the gap charge, on column indices: a column is charged
  when it is aligned, an earlier column is aligned too, and it does not immediately
  follow an aligned column with both positions one further on.
\<close>

definition is_first_aligned_column :: "alignment \<Rightarrow> nat \<Rightarrow> bool" where
  "is_first_aligned_column aln k =
     (has_both_positions_of_index aln k
      \<and> list_all (\<lambda>j. \<not> has_both_positions_of_index aln j) [0 ..< k])"

definition follows_previous_column :: "alignment \<Rightarrow> nat \<Rightarrow> bool" where
  "follows_previous_column aln k =
     (0 < k \<and> has_both_positions_of_index aln (k - 1)
      \<and> get_a_offset_1_position_of_index aln k = get_a_offset_1_position_of_index aln (k - 1) + 1
      \<and> get_b_offset_1_position_of_index aln k = get_b_offset_1_position_of_index aln (k - 1) + 1)"

definition gap_is_charged :: "alignment \<Rightarrow> nat \<Rightarrow> bool" where
  "gap_is_charged aln k =
     (has_both_positions_of_index aln k
      \<and> \<not> is_first_aligned_column aln k
      \<and> \<not> follows_previous_column aln k)"

definition path_score ::
  "(size_t \<Rightarrow> size_t \<Rightarrow> score_type) \<Rightarrow> score_type \<Rightarrow> alignment \<Rightarrow> nat \<Rightarrow> score_type" where
  "path_score final_score_matrix gap aln n =
     (\<Sum>k \<leftarrow> [0 ..< n].
        if has_both_positions_of_index aln k
        then final_score_matrix (get_b_offset_1_position_of_index aln k)
               (get_a_offset_1_position_of_index aln k)
             - (if gap_is_charged aln k then gap else 0)
        else 0)"

text \<open>
  What the variables of the walk hold when the walk has passed the columns below \<open>k\<close>,
  for a gap penalty \<open>gap\<close>.
\<close>

definition walk_invariant ::
  "(size_t \<Rightarrow> size_t \<Rightarrow> score_type) \<Rightarrow> score_type \<Rightarrow> alignment \<Rightarrow> nat \<Rightarrow> path_walk \<Rightarrow> bool" where
  "walk_invariant M gap aln k w \<longleftrightarrow>
     is_first_with_both_posns w = list_all (\<lambda>j. \<not> has_both_positions_of_index aln j) [0 ..< k]
     \<and> prev_had_both_posns w = (0 < k \<and> has_both_positions_of_index aln (k - 1))
     \<and> (prev_had_both_posns w \<longrightarrow>
          prev_a_position w = get_a_offset_1_position_of_index aln (k - 1)
          \<and> prev_b_position w = get_b_offset_1_position_of_index aln (k - 1))
     \<and> maxscore w = path_score M gap aln k
     \<and> num_aligned_pairs w = length (filter (has_both_positions_of_index aln) [0 ..< k])"

subsection \<open>alignment\_refiner.cpp\<close>

text \<open>
  Modelled from the spec: an alignment split (its header is not among the sources) is a
  partition of the entries of an alignment into two halves; it knows the number of
  entries it was made for and the members of its first half.
\<close>

record alignment_split =
  get_num_entries :: nat
  split_members :: "nat list"

text \<open>
  The members \<open>from_alignment_scores\<close> and \<open>to_alignment_scores\<close> of the refiner.
\<close>

record refiner_state =
  from_alignment_scores :: "real list list"
  to_alignment_scores :: "real list list"

type_synonym bool_aln_pair = "bool \<times> alignment"

text \<open>
  Functions that the refiner calls and whose definitions are not among the sources: the
  generation of the standard splits, and everything that \<open>iterate_step_for_alignment_split\<close>
  does after its check of the number of entries, from the construction of the two split
  mappings over the rescoring of the two matrices to the dynamic programming and the
  rebuilding of the alignment. The types of the view caches and of the gap penalty are
  left open.
\<close>

record ('protein, 'view_cache_list, 'gap_penalty) refiner_collaborators =
  get_standard_alignment_splits :: "alignment \<Rightarrow> alignment_split list"
  rescore_and_realign ::
    "refiner_state \<Rightarrow> alignment \<Rightarrow> 'protein list \<Rightarrow> 'view_cache_list \<Rightarrow> 'gap_penalty
       \<Rightarrow> alignment_split \<Rightarrow> (exn + bool_aln_pair) \<times> refiner_state"

definition iterate_step_for_alignment_split ::
  "('protein, 'view_cache_list, 'gap_penalty) refiner_collaborators \<Rightarrow> refiner_state
     \<Rightarrow> alignment \<Rightarrow> 'protein list \<Rightarrow> 'view_cache_list \<Rightarrow> 'gap_penalty \<Rightarrow> alignment_split
     \<Rightarrow> (exn + bool_aln_pair) \<times> refiner_state" where
  "iterate_step_for_alignment_split rc st arg_alignment arg_proteins arg_view_cache_list
       arg_gap_penalty arg_alignment_split =
     (if get_num_entries arg_alignment_split \<noteq> num_entries arg_alignment
      then (Inl not_implemented_exception, st)
      else rescore_and_realign rc st arg_alignment arg_proteins arg_view_cache_list
             arg_gap_penalty arg_alignment_split)"

text \<open>
  The loop of \<open>iterate_step_for_alignment_split_list\<close> over the splits, with the variables
  \<open>inserted_residues\<close> and \<open>iter_aln\<close>.
\<close>

fun iterate_over_splits ::
  "('protein, 'view_cache_list, 'gap_penalty) refiner_collaborators \<Rightarrow> 'protein list
     \<Rightarrow> 'view_cache_list \<Rightarrow> 'gap_penalty \<Rightarrow> alignment_split list \<Rightarrow> bool \<Rightarrow> alignment
     \<Rightarrow> refiner_state \<Rightarrow> (exn + bool_aln_pair) \<times> refiner_state" where
  "iterate_over_splits rc arg_proteins arg_view_cache_list arg_gap_penalty []
       inserted_residues iter_aln st =
     (Inr (inserted_residues, iter_aln), st)"
| "iterate_over_splits rc arg_proteins arg_view_cache_list arg_gap_penalty (the_split # splits)
       inserted_residues iter_aln st =
     (case iterate_step_for_alignment_split rc st iter_aln arg_proteins arg_view_cache_list
             arg_gap_penalty the_split of
        (Inl e, st') \<Rightarrow> (Inl e, st')
      | (Inr inserted_res_and_aln, st') \<Rightarrow>
          iterate_over_splits rc arg_proteins arg_view_cache_list arg_gap_penalty splits
            (fst inserted_res_and_aln \<or> inserted_residues) (snd inserted_res_and_aln) st')"

definition iterate_step_for_alignment_split_list ::
  "('protein, 'view_cache_list, 'gap_penalty) refiner_collaborators \<Rightarrow> refiner_state
     \<Rightarrow> alignment \<Rightarrow> 'protein list \<Rightarrow> 'view_cache_list \<Rightarrow> 'gap_penalty
     \<Rightarrow> alignment_split list \<Rightarrow> (exn + bool_aln_pair) \<times> refiner_state" where
  "iterate_step_for_alignment_split_list rc st arg_alignment arg_proteins arg_view_cache_list
       arg_gap_penalty arg_alignment_split_list =
     iterate_over_splits rc arg_proteins arg_view_cache_list arg_gap_penalty
       arg_alignment_split_list False arg_alignment st"

definition iterate_step ::
  "('protein, 'view_cache_list, 'gap_penalty) refiner_collaborators \<Rightarrow> refiner_state
     \<Rightarrow> alignment \<Rightarrow> 'protein list \<Rightarrow> 'view_cache_list \<Rightarrow> 'gap_penalty
     \<Rightarrow> (exn + bool_aln_pair) \<times> refiner_state" where
  "iterate_step rc st arg_alignment arg_proteins arg_view_cache_list arg_gap_penalty =
     (let num_entries_value = num_entries arg_alignment
      in if length arg_proteins \<noteq> num_entries_value
         then (Inl not_implemented_exception, st)
         else iterate_step_for_alignment_split_list rc st arg_alignment arg_proteins
                arg_view_cache_list arg_gap_penalty
                (get_standard_alignment_splits rc arg_alignment))"

text \<open>
  The \<^verbatim>\<open>while\<close> loop of \<open>iterate\<close>, entered with the variables \<open>prev_alignment\<close>,
  \<open>curr_alignment\<close> and \<open>inserted_residues\<close>. The loop has no bound on its rounds, so the
  function is partial: \<open>None\<close> stands for a loop that never ends. When the step's output
  equals \<open>prev_alignment\<close>, the two swaps have made it \<open>curr_alignment\<close>, and the
  \<^verbatim>\<open>break\<close> returns it. \<open>iter_ctr\<close> only numbers the log lines.
\<close>

partial_function (option) iterate_loop ::
  "(refiner_state \<Rightarrow> alignment \<Rightarrow> (exn + bool_aln_pair) \<times> refiner_state)
     \<Rightarrow> nat \<Rightarrow> alignment \<Rightarrow> alignment \<Rightarrow> bool \<Rightarrow> refiner_state
     \<Rightarrow> ((exn + alignment) \<times> refiner_state) option" where
  "iterate_loop step iter_ctr prev_alignment curr_alignment inserted_residues st =
     (if inserted_residues \<or> curr_alignment \<noteq> prev_alignment then
        (case step st curr_alignment of
           (Inl e, st') \<Rightarrow> Some (Inl e, st')
         | (Inr ins_res_and_next_aln, st') \<Rightarrow>
             (let next_alignment = snd ins_res_and_next_aln;
                  next_matches_prev = (next_alignment = prev_alignment)
              in if next_matches_prev then Some (Inr next_alignment, st')
                 else iterate_loop step (iter_ctr + 1) curr_alignment next_alignment
                        (fst ins_res_and_next_aln) st'))
      else Some (Inr curr_alignment, st))"

definition iterate ::
  "('protein, 'view_cache_list, 'gap_penalty) refiner_collaborators \<Rightarrow> refiner_state
     \<Rightarrow> alignment \<Rightarrow> 'protein list \<Rightarrow> 'view_cache_list \<Rightarrow> 'gap_penalty
     \<Rightarrow> ((exn + alignment) \<times> refiner_state) option" where
  "iterate rc st arg_alignment arg_proteins arg_view_cache_list arg_gap_penalty =
     iterate_loop
       (\<lambda>st' aln. iterate_step rc st' aln arg_proteins arg_view_cache_list arg_gap_penalty)
       0 (empty_alignment NUM_ENTRIES_IN_PAIR_ALIGNMENT) arg_alignment True st"

subsection \<open>context\_res.h: score\_of\_squared\_distance\<close>






subsection \<open>Example inputs\<close>

text \<open>
  A pair alignment of five columns, three of them aligned, and collaborators and queriers
  with simple values, on proteins that are given by their number of entries only. They
  serve to run the definitions above on concrete inputs.
\<close>

definition example_alignment :: alignment where
  "example_alignment =
     \<lparr> num_entries = 2,
       columns = [[Some 0, Some 0], [Some 1, None], [None, Some 1],
                  [Some 2, Some 2], [Some 3, Some 3]] \<rparr>"

definition example_collaborators :: "nat collaborators" where
  "example_collaborators =
     \<lparr> check_offset_1 = (\<lambda>i. if i = 0 then Some invalid_argument_exception else None),
       get_window_start_a_for_b__offset_1 = (\<lambda>length_a length_b window b. 1),
       get_window_stop_a_for_b__offset_1 = (\<lambda>length_a length_b window b. length_a),
       get_window_matrix_a_index__offset_1 = (\<lambda>length_a length_b window a b. uint a),
       align_lower_matrix = (\<lambda>q pa pb a b mask gap window. (12, example_alignment)),
       calculate_sequence_identity = (\<lambda>aln pa pb. 0) \<rparr>"

definition example_residue_querier :: "nat entry_querier" where
  "example_residue_querier =
     \<lparr> temp_hacky_is_residue = True,
       get_length = (\<lambda>p. word_of_nat p),
       num_excluded_on_either_size = 5,
       optimum_single_score = 50,
       get_gap_penalty_ratio = 1 / 2,
       distance_score__offset_1 = (\<lambda>pa pb a_from b_from a_to b_to. 7),
       are_comparable__offset_1 = (\<lambda>pa pb a_from b_from a_to b_to. a_from \<noteq> a_to) \<rparr>"

definition example_sec_struc_querier :: "nat entry_querier" where
  "example_sec_struc_querier =
     \<lparr> temp_hacky_is_residue = False,
       get_length = (\<lambda>p. word_of_nat p),
       num_excluded_on_either_size = 0,
       optimum_single_score = 400 / 3,
       get_gap_penalty_ratio = 1,
       distance_score__offset_1 = (\<lambda>pa pb a_from b_from a_to b_to. 7),
       are_comparable__offset_1 = (\<lambda>pa pb a_from b_from a_to b_to. True) \<rparr>"

text \<open>
  Two pair alignments, and refiner collaborators whose realignment answers each of the
  two with the other one and reports inserted residues every time.
\<close>

definition example_alignment_b :: alignment where
  "example_alignment_b =
     \<lparr> num_entries = 2,
       columns = [[Some 0, None], [Some 1, Some 0], [Some 2, Some 1], [Some 3, Some 2]] \<rparr>"

definition example_refiner_collaborators :: "(nat, unit, unit) refiner_collaborators" where
  "example_refiner_collaborators =
     \<lparr> get_standard_alignment_splits =
         (\<lambda>aln. [\<lparr> get_num_entries = num_entries aln, split_members = [0] \<rparr>]),
       rescore_and_realign =
         (\<lambda>st aln proteins view_caches gap the_split.
            (Inr (True, if aln = example_alignment then example_alignment_b
                        else example_alignment), st)) \<rparr>"

definition example_refiner_state :: refiner_state where
  "example_refiner_state = \<lparr> from_alignment_scores = [], to_alignment_scores = [] \<rparr>"



text \<open>
  Residues: two with moderate values, and two that differ from each other only in their
  accessibilities, which are the largest \<^verbatim>\<open>size_t\<close> and 1.
\<close>

definition example_residue_i :: residue where
  "example_residue_i =
     \<lparr> get_access = 20, get_accessi_of_residue = 10, get_phi_angle = - 65,
       get_psi_angle = 120 \<rparr>"

definition example_residue_j :: residue where
  "example_residue_j =
     \<lparr> get_access = 15, get_accessi_of_residue = 25, get_phi_angle = 60,
       get_psi_angle = 100 \<rparr>"

definition huge_access_residue :: residue where
  "huge_access_residue =
     \<lparr> get_access = 18446744073709551615, get_accessi_of_residue = 0, get_phi_angle = 0, get_psi_angle = 0 \<rparr>"

definition unit_access_residue :: residue where
  "unit_access_residue =
     \<lparr> get_access = 1, get_accessi_of_residue = 0, get_phi_angle = 0, get_psi_angle = 0 \<rparr>"

section \<open>Properties\<close>

subsection \<open>Rounding to double precision\<close>

text \<open>
  The rounding keeps 0 and the sign, is monotone on the non-negative numbers, and leaves
  the natural numbers below \<open>2\<^sup>5\<^sup>3\<close> as they are.
\<close>

lemma pow2_powr: "pow2 k = 2 powr of_int k"
  by (simp add: pow2_def powr_int)

lemma pow2_pos [simp]: "0 < pow2 k"
  by (simp add: pow2_powr)

lemma pow2_add: "pow2 (j + k) = pow2 j * pow2 k"
  by (simp add: pow2_powr powr_add)

lemma pow2_mono: "j \<le> k \<Longrightarrow> pow2 j \<le> pow2 k"
  by (simp add: pow2_powr)

lemma round_ties_to_even_of_int [simp]: "round_ties_to_even (of_int n) = n"
  by (simp add: round_ties_to_even_def)

lemma round_ties_to_even_bounds:
  "\<lfloor>y\<rfloor> \<le> round_ties_to_even y" "round_ties_to_even y \<le> \<lfloor>y\<rfloor> + 1"
  by (simp_all add: round_ties_to_even_def Let_def)

lemma round_ties_to_even_mono:
  assumes "x \<le> y"
  shows "round_ties_to_even x \<le> round_ties_to_even y"
proof (cases "\<lfloor>x\<rfloor> = \<lfloor>y\<rfloor>")
  case True
  then show ?thesis
    using assms by (auto simp: round_ties_to_even_def Let_def)
next
  case False
  then have "\<lfloor>x\<rfloor> + 1 \<le> \<lfloor>y\<rfloor>"
    using assms floor_mono [of x y] by linarith
  then show ?thesis
    using round_ties_to_even_bounds(2) [of x] round_ties_to_even_bounds(1) [of y] by linarith
qed

lemma quantum_pos [simp]: "0 < quantum x"
  by (simp add: quantum_def)

lemma binade_eq_iff:
  "x \<noteq> 0 \<Longrightarrow> binade x = k \<longleftrightarrow> pow2 k \<le> \<bar>x\<bar> \<and> \<bar>x\<bar> < pow2 (k + 1)"
  using floor_log_eq_powr_iff [of "\<bar>x\<bar>" 2 k] by (simp add: binade_def pow2_powr)

lemma binade_mono:
  assumes "0 < x" "x \<le> y"
  shows "binade x \<le> binade y"
  using assms by (simp add: binade_def floor_mono)

lemma quantum_times:
  "quantum x * 2 ^ 52 = pow2 (binade x)" "quantum x * 2 ^ 53 = pow2 (binade x + 1)"
proof -
  have "quantum x * pow2 52 = pow2 (binade x)"
    unfolding quantum_def pow2_add [symmetric] by simp
  then show "quantum x * 2 ^ 52 = pow2 (binade x)" by (simp add: pow2_def)
  have "quantum x * pow2 53 = pow2 (binade x + 1)"
    unfolding quantum_def pow2_add [symmetric] by (simp add: add.commute)
  then show "quantum x * 2 ^ 53 = pow2 (binade x + 1)" by (simp add: pow2_def)
qed

lemma significand_bounds:
  assumes "0 < x"
  shows "2 ^ 52 \<le> x / quantum x" "x / quantum x < 2 ^ 53"
proof -
  have b: "pow2 (binade x) \<le> x" "x < pow2 (binade x + 1)"
    using assms binade_eq_iff [of x "binade x"] by simp_all
  have "quantum x * 2 ^ 52 \<le> x" using b(1) unfolding quantum_times(1) .
  then show "2 ^ 52 \<le> x / quantum x"
    by (simp add: pos_le_divide_eq mult.commute)
  have "x < quantum x * 2 ^ 53" using b(2) unfolding quantum_times(2) .
  then show "x / quantum x < 2 ^ 53"
    by (simp add: pos_divide_less_eq mult.commute)
qed

lemma to_double_zero [simp]: "to_double 0 = 0"
  by (simp add: to_double_def)

lemma to_double_bounds:
  assumes "0 < x"
  shows "pow2 (binade x) \<le> to_double x" "to_double x \<le> pow2 (binade x + 1)"
proof -
  let ?m = "round_ties_to_even (x / quantum x)"
  have "round_ties_to_even (of_int (2 ^ 52)) \<le> ?m"
    by (rule round_ties_to_even_mono) (use significand_bounds(1) [OF assms] in simp)
  then have "(2::int) ^ 52 \<le> ?m" by (simp only: round_ties_to_even_of_int)
  then have "of_int ((2::int) ^ 52) \<le> (of_int ?m :: real)" by (simp only: of_int_le_iff)
  then have "quantum x * 2 ^ 52 \<le> quantum x * of_int ?m"
    by (simp add: mult_left_mono)
  then have "pow2 (binade x) \<le> quantum x * of_int ?m"
    unfolding quantum_times(1) .
  then show "pow2 (binade x) \<le> to_double x"
    using assms by (simp add: to_double_def)
  have "?m \<le> round_ties_to_even (of_int (2 ^ 53))"
    by (rule round_ties_to_even_mono) (use significand_bounds(2) [OF assms] in simp)
  then have "?m \<le> (2::int) ^ 53" by (simp only: round_ties_to_even_of_int)
  then have "(of_int ?m :: real) \<le> of_int ((2::int) ^ 53)" by (simp only: of_int_le_iff)
  then have "quantum x * of_int ?m \<le> quantum x * 2 ^ 53"
    by (simp add: mult_left_mono)
  then have "quantum x * of_int ?m \<le> pow2 (binade x + 1)"
    unfolding quantum_times(2) .
  then show "to_double x \<le> pow2 (binade x + 1)"
    using assms by (simp add: to_double_def)
qed

lemma to_double_pos: "0 < x \<Longrightarrow> 0 < to_double x"
  using to_double_bounds(1) [of x] pow2_pos [of "binade x"] by linarith

lemma to_double_mono_pos:
  assumes "0 < x" "x \<le> y"
  shows "to_double x \<le> to_double y"
proof (cases "binade x = binade y")
  case True
  then have q: "quantum x = quantum y" by (simp add: quantum_def)
  have "x / quantum y \<le> y / quantum y"
    using assms(2) quantum_pos [of y] by (simp add: divide_right_mono less_imp_le)
  then have "round_ties_to_even (x / quantum y) \<le> round_ties_to_even (y / quantum y)"
    by (rule round_ties_to_even_mono)
  then have "quantum y * of_int (round_ties_to_even (x / quantum y))
      \<le> quantum y * of_int (round_ties_to_even (y / quantum y))"
    by (simp add: mult_left_mono)
  then show ?thesis using assms q by (simp add: to_double_def)
next
  case False
  then have "binade x + 1 \<le> binade y"
    using binade_mono [OF assms] by linarith
  then have "pow2 (binade x + 1) \<le> pow2 (binade y)"
    by (rule pow2_mono)
  then show ?thesis
    using to_double_bounds(2) [of x] to_double_bounds(1) [of y] assms by linarith
qed

lemma to_double_mono: "0 \<le> x \<Longrightarrow> x \<le> y \<Longrightarrow> to_double x \<le> to_double y"
  using to_double_mono_pos [of x y] to_double_pos [of y] by (cases "x = 0") (auto simp: less_eq_real_def)



lemma to_double_representable:
  assumes "0 < x" and "x / quantum x = of_int m"
  shows "to_double x = x"
proof -
  have "to_double x = quantum x * (x / quantum x)"
    using assms by (simp add: to_double_def)
  then show ?thesis using quantum_pos [of x] by simp
qed

lemma to_double_of_nat:
  assumes "n < 2 ^ 53"
  shows "to_double (real n) = real n"
proof (cases "n = 0")
  case True then show ?thesis by simp
next
  case False
  then have pos: "0 < real n" by simp
  have "pow2 (binade (real n)) \<le> real n"
    using pos binade_eq_iff [of "real n" "binade (real n)"] by simp
  moreover have "real n < pow2 53" using assms by (simp add: pow2_def) 
  ultimately have "pow2 (binade (real n)) < pow2 53" by linarith
  then have "binade (real n) < 53"
    using pow2_mono [of 53 "binade (real n)"] by linarith
  then have le: "0 \<le> 52 - binade (real n)" by simp
  have "pow2 (52 - binade (real n)) * quantum (real n) = 1"
    unfolding quantum_def pow2_add [symmetric] by (simp add: pow2_def)
  then have "1 / quantum (real n) = pow2 (52 - binade (real n))"
    using less_imp_neq [OF quantum_pos [of "real n"]] by (simp add: divide_eq_eq)
  also have "\<dots> = of_int (2 ^ nat (52 - binade (real n)))"
    using le by (simp add: pow2_def)
  finally have inv: "1 / quantum (real n) = of_int (2 ^ nat (52 - binade (real n)))" .
  have "real n / quantum (real n) = real n * (1 / quantum (real n))" by simp
  also have "\<dots> = real n * of_int (2 ^ nat (52 - binade (real n)))" by (simp only: inv)
  also have "\<dots> = of_int (int n * 2 ^ nat (52 - binade (real n)))" by simp
  finally have "real n / quantum (real n) = of_int (int n * 2 ^ nat (52 - binade (real n)))" .
  then show ?thesis using pos by (rule to_double_representable [rotated])
qed

text \<open>The rounding is odd, so it is monotone on all real numbers.\<close>

lemma round_ties_to_even_minus: "round_ties_to_even (- y) = - round_ties_to_even y"
proof (cases "y = of_int \<lfloor>y\<rfloor>")
  case True
  then obtain n where "y = of_int n" ..
  then show ?thesis
    using round_ties_to_even_of_int [of "- n"] by simp
next
  case False
  define n where "n = \<lfloor>y\<rfloor>"
  define r where "r = y - of_int n"
  have r: "0 < r" "r < 1" using False by (simp_all add: r_def n_def) linarith+
  have f: "\<lfloor>- y\<rfloor> = - n - 1"
    using r by (intro floor_unique) (simp_all add: r_def)
  have r': "- y - of_int (- n - 1) = 1 - r" by (simp add: r_def)
  have y: "round_ties_to_even y
           = (if r < 1 / 2 then n else if 1 / 2 < r then n + 1 else if even n then n else n + 1)"
    by (simp add: round_ties_to_even_def n_def r_def)
  have my: "round_ties_to_even (- y)
           = (if 1 - r < 1 / 2 then - n - 1 else if 1 / 2 < 1 - r then - n
              else if even (- n - 1) then - n - 1 else - n)"
    unfolding round_ties_to_even_def f Let_def r' by simp
  consider "r < 1 / 2" | "r = 1 / 2" | "1 / 2 < r" by linarith
  then show ?thesis
  proof cases
    case 1
    then show ?thesis unfolding y my by simp
  next
    case 2
    then show ?thesis unfolding y my by simp
  next
    case 3
    then show ?thesis unfolding y my by simp
  qed
qed

lemma quantum_minus: "quantum (- x) = quantum x"
  by (simp add: quantum_def binade_def)

lemma to_double_minus: "to_double (- x) = - to_double x"
  by (simp add: to_double_def quantum_minus round_ties_to_even_minus)

lemma to_double_mono_all:
  assumes "x \<le> y"
  shows "to_double x \<le> to_double y"
proof -
  consider "0 \<le> x" | "x < 0" "0 \<le> y" | "y < 0" by linarith
  then show ?thesis
  proof cases
    case 1
    then show ?thesis using assms by (rule to_double_mono)
  next
    case 2
    have "0 < to_double (- x)" using 2 by (intro to_double_pos) simp
    moreover have "0 \<le> to_double y" using to_double_mono [of 0 y] 2 by simp
    ultimately show ?thesis by (simp add: to_double_minus)
  next
    case 3
    then have "to_double (- y) \<le> to_double (- x)"
      using assms by (intro to_double_mono) simp_all
    then show ?thesis by (simp add: to_double_minus)
  qed
qed

subsection \<open>The number of comparable pairs\<close>

lemma brute_force_set:
  "brute_force_num_comparable n L = card {(i, j). i < L \<and> j < L \<and> (i + n < j \<or> j + n < i)}"
proof -
  have "Set.filter (\<lambda>(i, j). i \<noteq> j \<and> int n < \<bar>int i - int j\<bar>) ({..<L} \<times> {..<L})
        = {(i, j). i < L \<and> j < L \<and> (i + n < j \<or> j + n < i)}"
    by auto
  then show ?thesis by (simp add: brute_force_num_comparable_def)
qed

lemma card_new_row: "card {(i, j). j = L \<and> i + n < L} = L - n"
proof -
  have "{(i, j). j = L \<and> i + n < L} = (\<lambda>i. (i, L)) ` {..<L - n}" by auto
  moreover have "inj_on (\<lambda>i. (i, L)) {..<L - n}" by (simp add: inj_on_def)
  ultimately show ?thesis by (simp add: card_image)
qed

lemma card_new_col: "card {(i, j). i = L \<and> j + n < L} = L - n"
proof -
  have "{(i, j). i = L \<and> j + n < L} = (\<lambda>j. (L, j)) ` {..<L - n}" by auto
  moreover have "inj_on (\<lambda>j. (L, j)) {..<L - n}" by (simp add: inj_on_def)
  ultimately show ?thesis by (simp add: card_image)
qed

text \<open>One more index adds a new last row and a new last column of the cross pattern.\<close>

lemma brute_force_Suc:
  "brute_force_num_comparable n (Suc L) = brute_force_num_comparable n L + 2 * (L - n)"
proof -
  let ?S = "\<lambda>L. {(i, j). i < L \<and> j < L \<and> (i + n < j \<or> j + n < i)}"
  let ?R = "{(i, j). j = L \<and> i + n < L}"
  let ?C = "{(i, j). i = L \<and> j + n < L}"
  have fin: "finite (?S L)" "finite ?R" "finite ?C"
  proof -
    have "?S L \<subseteq> {..<L} \<times> {..<L}" by auto
    then show "finite (?S L)" by (rule finite_subset) simp
    have "?R \<subseteq> {..<L} \<times> {L}" by auto
    then show "finite ?R" by (rule finite_subset) simp
    have "?C \<subseteq> {L} \<times> {..<L}" by auto
    then show "finite ?C" by (rule finite_subset) simp
  qed
  have split: "?S (Suc L) = ?S L \<union> (?R \<union> ?C)" by (auto simp: less_Suc_eq)
  have disj: "?S L \<inter> (?R \<union> ?C) = {}" "?R \<inter> ?C = {}" by auto
  have "card (?S (Suc L)) = card (?S L) + card (?R \<union> ?C)"
    unfolding split using fin disj by (simp add: card_Un_disjoint)
  also have "card (?R \<union> ?C) = card ?R + card ?C"
    using fin disj by (simp add: card_Un_disjoint)
  finally have "card (?S (Suc L)) = card (?S L) + (card ?R + card ?C)" .
  then have "card (?S (Suc L)) = card (?S L) + ((L - n) + (L - n))"
    unfolding card_new_row card_new_col .
  then show ?thesis unfolding brute_force_set by simp
qed

lemma brute_force_closed_form:
  "brute_force_num_comparable n L = closed_form_num_comparable n L"
proof (induction L)
  case 0
  show ?case by (simp add: brute_force_set closed_form_num_comparable_def)
next
  case (Suc L)
  consider "L \<le> n" | "L = n + 1" | "n + 1 < L" by linarith
  then show ?case
  proof cases
    case 1
    then show ?thesis
      using Suc by (simp add: brute_force_Suc closed_form_num_comparable_def)
  next
    case 2
    then show ?thesis
      using Suc by (simp add: brute_force_Suc closed_form_num_comparable_def)
  next
    case 3
    define k where "k = L - n - 2"
    have k: "L = n + k + 2" using 3 by (simp add: k_def)
    show ?thesis
      using Suc by (simp add: brute_force_Suc closed_form_num_comparable_def k algebra_simps)
  qed
qed

text \<open>
  As long as neither the guard's \<open>n + 1\<close> nor the product leaves the range of
  \<^verbatim>\<open>size_t\<close>, the code computes the closed form.
\<close>

lemma unat_num_comparable_impl:
  assumes n: "unat n < 2 ^ 64 - 1"
    and fits: "(unat L - unat n) * (unat L - unat n - 1) < 2 ^ 64"
  shows "unat (num_comparable_impl n L) = closed_form_num_comparable (unat n) (unat L)"
proof -
  have n1: "unat (n + 1) = unat n + 1"
    using n by (simp add: unat_word_ariths)
  show ?thesis
  proof (cases "L \<le> n + 1")
    case True
    then have "unat L \<le> unat n + 1" using n1 by (simp add: word_le_nat_alt)
    then show ?thesis
      using True by (simp add: num_comparable_impl_def closed_form_num_comparable_def)
  next
    case False
    then have lt: "unat n + 1 < unat L" using n1 by (simp add: word_le_nat_alt)
    then have le: "n \<le> L" by (simp add: word_le_nat_alt)
    have d: "unat (L - n) = unat L - unat n" using le by (simp add: unat_sub)
    have "1 \<le> L - n" using lt d by (simp add: word_le_nat_alt)
    then have d1: "unat (L - n - 1) = unat L - unat n - 1" using d by (simp add: unat_sub)
    have "unat ((L - n) * (L - n - 1)) = (unat L - unat n) * (unat L - unat n - 1)"
      using fits by (simp add: unat_word_ariths d d1)
    then show ?thesis
      using False lt by (simp add: num_comparable_impl_def closed_form_num_comparable_def)
  qed
qed

text \<open>
  The guard itself wraps when the exclusion radius is the largest \<^verbatim>\<open>size_t\<close>: then
  \<open>n + 1 = 0\<close>, a length of 1 is not caught, and the result is 2 although no pair exists.
\<close>

lemma num_comparable_impl_guard_wraps:
  "num_comparable_impl (- 1) 1 = 2 \<and> brute_force_num_comparable (unat (- 1 :: size_t)) 1 = 0"
  by (simp add: num_comparable_impl_def brute_force_closed_form closed_form_num_comparable_def)

text \<open>
  C1, as stated, fails: for exclusion radius 0 and length \<open>2 ^ 32 + 1\<close> the number of
  ordered pairs is \<open>2 ^ 64 + 2 ^ 32\<close>, which no \<^verbatim>\<open>size_t\<close> holds; the code returns
  \<open>2 ^ 32\<close>.
\<close>

theorem num_comparable_impl_overflow_counterexample:
  "unat (num_comparable_impl 0 4294967297)
     \<noteq> brute_force_num_comparable (unat (0 :: size_t)) (unat (4294967297 :: size_t))"
  by (simp add: num_comparable_impl_def brute_force_closed_form closed_form_num_comparable_def)

text \<open>
  C1 (amended): for every exclusion radius \<open>n\<close> below the largest \<^verbatim>\<open>size_t\<close> and every
  length \<open>L\<close> whose product \<open>(L - n) * (L - n - 1)\<close> fits into \<^verbatim>\<open>size_t\<close>,
  \<^verbatim>\<open>_num_comparable_impl(n, L)\<close> is the brute-force count of ordered pairs \<open>(i, j)\<close>
  with \<open>i, j < L\<close>, \<open>i \<noteq> j\<close> and \<open>\<bar>i - j\<bar> > n\<close>, which is \<open>(L - n) * (L - n - 1)\<close>
  when \<open>L > n + 1\<close> and 0 otherwise; the three fixture values of the test suite hold.
\<close>

theorem num_comparable_impl_is_brute_force:
  assumes "unat n < 2 ^ 64 - 1"
    and "(unat L - unat n) * (unat L - unat n - 1) < 2 ^ 64"
  shows "unat (num_comparable_impl n L) = brute_force_num_comparable (unat n) (unat L)
       \<and> unat (num_comparable_impl n L)
           = (if unat n + 1 < unat L then (unat L - unat n) * (unat L - unat n - 1) else 0)
       \<and> num_comparable_impl 5 100 = 8930
       \<and> num_comparable_impl 5 15 = 90
       \<and> num_comparable_impl 4 7 = 6"
proof -
  have "unat (num_comparable_impl n L) = brute_force_num_comparable (unat n) (unat L)"
    using assms by (simp add: unat_num_comparable_impl brute_force_closed_form)
  moreover have "unat (num_comparable_impl n L)
           = (if unat n + 1 < unat L then (unat L - unat n) * (unat L - unat n - 1) else 0)"
    using unat_num_comparable_impl [OF assms] by (simp add: closed_form_num_comparable_def)
  moreover have "num_comparable_impl 5 100 = 8930" by (simp add: num_comparable_impl_def)
  moreover have "num_comparable_impl 5 15 = 90" by (simp add: num_comparable_impl_def)
  moreover have "num_comparable_impl 4 7 = 6" by (simp add: num_comparable_impl_def)
  ultimately show ?thesis by blast
qed

theorem num_comparable_impl_is_brute_force_witness:
  "unat (4 :: size_t) < 2 ^ 64 - 1
   \<and> (unat (7 :: size_t) - unat (4 :: size_t)) * (unat (7 :: size_t) - unat (4 :: size_t) - 1) < 2 ^ 64
   \<and> unat (num_comparable_impl 4 7) = brute_force_num_comparable 4 7
   \<and> unat (num_comparable_impl 4 7) = 6"
  using num_comparable_impl_is_brute_force [of 4 7] by simp

subsection \<open>compare\_upper\_cell\<close>

lemma numeric_cast_score_type_not_quotient:
  "numeric_cast_score_type x \<noteq> Inl quotient_by_zero"
  by (simp add: numeric_cast_score_type_def)

lemma normalise_residue_score_zero: "normalise_residue_score score 0 = Inr 0"
  by (simp add: normalise_residue_score_def)

lemma normalise_residue_score_no_quotient_by_zero:
  "normalise_residue_score score prm_normalisation \<noteq> Inl quotient_by_zero"
  by (simp add: normalise_residue_score_def checked_dbl_div_def
      numeric_cast_score_type_not_quotient)

text \<open>
  The loop over the lower-level alignment adds to every cell the addends of the columns
  it has visited.
\<close>

lemma trace_lower_alignment_cell:
  assumes "trace_lower_alignment cs q pa pb a_from b_from window aln ctrs m = (None, m')"
  shows "m' row col
         = m row col + (\<Sum>k \<leftarrow> ctrs. upper_cell_addend cs q pa pb a_from b_from window aln row col k)"
  using assms
proof (induction ctrs arbitrary: m)
  case Nil
  then show ?case by simp
next
  case (Cons k ctrs)
  show ?case
  proof (cases "has_both_positions_of_index aln k")
    case False
    then have "trace_lower_alignment cs q pa pb a_from b_from window aln ctrs m = (None, m')"
      using Cons.prems by simp
    from Cons.IH [OF this] False show ?thesis
      by (simp add: upper_cell_addend_def)
  next
    case True
    let ?a = "get_a_offset_1_position_of_index aln k"
    let ?b = "get_b_offset_1_position_of_index aln k"
    let ?idx = "get_window_matrix_a_index__offset_1 cs (get_length q pa) (get_length q pb)
                  window ?a ?b"
    from Cons.prems True obtain c where c: "numeric_cast_size_t ?idx = Inr c"
      by (cases "numeric_cast_size_t ?idx") (auto simp: Let_def)
    let ?m1 = "m (?b := (m ?b) (c := m ?b c + distance_score__offset_1 q pa pb a_from b_from ?a ?b))"
    have "trace_lower_alignment cs q pa pb a_from b_from window aln ctrs ?m1 = (None, m')"
      using Cons.prems True c by (simp add: Let_def)
    from Cons.IH [OF this] True c show ?thesis
      by (auto simp: upper_cell_addend_def)
  qed
qed

lemma trace_lower_alignment_matrix:
  assumes "trace_lower_alignment cs q pa pb a_from b_from window aln ctrs m = (None, m')"
  shows "m' = (\<lambda>row col. m row col
           + (\<Sum>k \<leftarrow> ctrs. upper_cell_addend cs q pa pb a_from b_from window aln row col k))"
  using trace_lower_alignment_cell [OF assms] by (intro ext) simp

text \<open>
  C2: \<open>compare_upper_cell\<close> leaves all global variables, the upper score matrix among
  them, as they are when it returns \<open>ZERO\<close> or \<open>NON_ZERO_BELOW_THRESHOLD\<close>. When it returns
  \<open>SCORED\<close>, it has changed the upper score matrix only, and has added to each of its cells
  the entry querier's distance score from the view-from pair to the pair of positions of
  every column of the lower-level alignment that has both positions present and whose
  positions select that cell.
\<close>

theorem compare_upper_cell_frame:
  assumes "compare_upper_cell cs pa pb a_from b_from q prm_normalisation g = (r, g')"
  shows "(r = Inr ZERO \<or> r = Inr NON_ZERO_BELOW_THRESHOLD \<longrightarrow> g' = g)
       \<and> (r = Inr SCORED \<longrightarrow>
            g' = g \<lparr> global_upper_score_matrix := (\<lambda>row col.
                   global_upper_score_matrix g row col
                   + (\<Sum>k \<leftarrow> [0 ..< aln_length
                                   (snd (lower_score_and_alignment cs q pa pb a_from b_from g))].
                        upper_cell_addend cs q pa pb a_from b_from (global_window g)
                          (snd (lower_score_and_alignment cs q pa pb a_from b_from g))
                          row col k)) \<rparr>)"
  using assms
  by (auto simp: compare_upper_cell_def Let_def dest: trace_lower_alignment_matrix
      split: option.splits sum.splits if_splits prod.splits)


theorem compare_upper_cell_frame_witness:
  "fst (compare_upper_cell example_collaborators 50 60 1 1 example_sec_struc_querier 0
          reset_ssap_global_variables) = Inr SCORED
   \<and> global_upper_score_matrix
        (snd (compare_upper_cell example_collaborators 50 60 1 1 example_sec_struc_querier 0
                reset_ssap_global_variables)) 3 3 = 7
   \<and> global_upper_score_matrix
        (snd (compare_upper_cell example_collaborators 50 60 1 1 example_sec_struc_querier 0
                reset_ssap_global_variables)) 2 2 = 0"
proof -
  have r: "fst (compare_upper_cell example_collaborators 50 60 1 1 example_sec_struc_querier 0
          reset_ssap_global_variables) = Inr SCORED"
    by (simp add: compare_upper_cell_def example_collaborators_def example_sec_struc_querier_def
        lower_score_and_alignment_def reset_ssap_global_variables_def aln_length_def
        example_alignment_def has_both_positions_of_index_def position_of_entry_of_index_def
        PAIR_A_IDX_def PAIR_B_IDX_def get_a_offset_1_position_of_index_def
        get_b_offset_1_position_of_index_def numeric_cast_size_t_def upt_rec [of 0]
        upt_rec [of 1] upt_rec [of 2] upt_rec [of 3] upt_rec [of 4] upt_rec [of 5])
  show ?thesis
    using compare_upper_cell_frame [OF surjective_pairing, of example_collaborators 50 60 1 1
        example_sec_struc_querier 0 reset_ssap_global_variables] r
    by (simp add: example_collaborators_def example_sec_struc_querier_def
        lower_score_and_alignment_def reset_ssap_global_variables_def aln_length_def
        example_alignment_def has_both_positions_of_index_def position_of_entry_of_index_def
        PAIR_A_IDX_def PAIR_B_IDX_def get_a_offset_1_position_of_index_def
        get_b_offset_1_position_of_index_def numeric_cast_size_t_def upper_cell_addend_def
        upt_rec [of 0] upt_rec [of 1] upt_rec [of 2] upt_rec [of 3] upt_rec [of 4] upt_rec [of 5])
qed

text \<open>
  C10: for a residue comparison whose two offset-1 indices pass their checks, a
  normalisation of exactly \<open>0.0\<close> makes \<open>compare_upper_cell\<close> set the score to 0 and
  return \<open>ZERO\<close>, with the global variables unchanged; and for no score and no
  normalisation does the normalising step divide by zero.
\<close>

theorem compare_upper_cell_guards_division:
  assumes "temp_hacky_is_residue q"
    and "check_offset_1 cs a_from = None"
    and "check_offset_1 cs b_from = None"
  shows "compare_upper_cell cs pa pb a_from b_from q 0 g = (Inr ZERO, g)
       \<and> normalise_residue_score score 0 = Inr 0
       \<and> normalise_residue_score score prm_normalisation \<noteq> Inl quotient_by_zero"
  using assms
  by (simp add: compare_upper_cell_def Let_def normalise_residue_score_zero
      normalise_residue_score_no_quotient_by_zero)

theorem compare_upper_cell_guards_division_witness:
  "temp_hacky_is_residue example_residue_querier
   \<and> check_offset_1 example_collaborators 3 = None
   \<and> check_offset_1 example_collaborators 4 = None
   \<and> compare_upper_cell example_collaborators 50 60 3 4 example_residue_querier 0
         reset_ssap_global_variables = (Inr ZERO, reset_ssap_global_variables)
   \<and> normalise_residue_score 12 0 = Inr 0
   \<and> normalise_residue_score 12 0 \<noteq> Inl quotient_by_zero"
proof -
  have h: "temp_hacky_is_residue example_residue_querier"
    "check_offset_1 example_collaborators 3 = None"
    "check_offset_1 example_collaborators 4 = None"
    by (simp_all add: example_residue_querier_def example_collaborators_def)
  show ?thesis
    using h compare_upper_cell_guards_division [OF h, of 50 60 reset_ssap_global_variables 12 0]
    by simp
qed

subsection \<open>The normalisation of the lower-level score\<close>






















subsection \<open>Similar areas and angles of two residues\<close>

lemma mean_less_iff:
  fixes B x y C :: nat
  shows "B + (x + y) div 2 < C \<longleftrightarrow> real B + (real x + real y) / 2 < real C"
proof -
  have "real B + (real x + real y) / 2 < real C \<longleftrightarrow> 2 * B + (x + y) < 2 * C"
    by (simp add: field_simps flip: of_nat_add of_nat_mult) linarith
  also have "\<dots> \<longleftrightarrow> B + (x + y) div 2 < C" by linarith
  finally show ?thesis by simp
qed

lemma difference_double_abs: "difference_double a b = to_double \<bar>a - b\<bar>"
  by (simp add: difference_double_def dbl_sub_def abs_real_def)

lemma difference_double_commute: "difference_double a b = difference_double b a"
  by (simp add: difference_double_abs abs_minus_commute)

lemma difference_int_commute: "difference_int a b = difference_int b a"
proof (cases "sint a = sint b")
  case True
  then have "a = b" by (rule signed_word_eqI)
  then show ?thesis by simp
next
  case False
  then show ?thesis by (auto simp: difference_int_def word_sless_alt)
qed

lemma sint_difference_int:
  assumes "\<bar>sint a - sint b\<bar> < 2 ^ 31"
  shows "sint (difference_int a b) = \<bar>sint a - sint b\<bar>"
proof -
  have r: "sint (x - y) = sint x - sint y"
    if "- (2 ^ 31) \<le> sint x - sint y" "sint x - sint y < 2 ^ 31" for x y :: c_int
    using that by (simp add: sint_word_ariths signed_take_bit_int_eq_self)
  show ?thesis
  proof (cases "a <s b")
    case True
    then have "sint a < sint b" by (simp add: word_sless_alt)
    then show ?thesis using assms True r [of b a] by (simp add: difference_int_def)
  next
    case False
    then have "sint b \<le> sint a" by (simp add: word_sless_alt)
    then show ?thesis using assms False r [of a b] by (simp add: difference_int_def)
  qed
qed

lemma to_double_nonneg: "0 \<le> x \<Longrightarrow> 0 \<le> to_double x"
  using to_double_mono_all [of 0 x] by simp

lemma std_round_difference:
  "std_round (difference_double (angle_in_degrees a) (angle_in_degrees b))
     = of_int (rounded_angle_diff a b)"
  by (simp add: std_round_def difference_double_abs rounded_angle_diff_def round_def
      to_double_nonneg)

lemma rounded_angle_diff_nonneg: "0 \<le> rounded_angle_diff a b"
  by (simp add: rounded_angle_diff_def round_def to_double_nonneg)

lemma numeric_cast_size_t_of_double_of_int:
  assumes "0 \<le> i" "i < 2 ^ 64"
  shows "numeric_cast_size_t_of_double (of_int i) = Inr (word_of_int i)"
proof -
  have "real_of_int i < 2 ^ 64" using assms(2) by (metis of_int_less_iff of_int_numeral of_int_power)
  then show ?thesis
    using assms(1) by (simp add: numeric_cast_size_t_of_double_def truncate_towards_zero_def)
qed

lemma residues_have_similar_area_angle_props_commute:
  "residues_have_similar_area_angle_props g res_i res_j
     = residues_have_similar_area_angle_props g res_j res_i"
  unfolding residues_have_similar_area_angle_props_def Let_def
    difference_int_commute [of "get_accessi_of_residue res_i"]
    difference_double_commute [of "angle_in_degrees (get_phi_angle res_i)"]
    difference_double_commute [of "angle_in_degrees (get_psi_angle res_i)"]
  by (simp add: add.commute split: sum.splits)

lemma residues_have_similar_area_angle_props_in_range:
  assumes bd: "buried_diff res_i res_j < 2 ^ 31"
    and ang: "rounded_angle_diff (get_phi_angle res_i) (get_phi_angle res_j)
                + rounded_angle_diff (get_psi_angle res_i) (get_psi_angle res_j) < 2 ^ 64"
    and tot: "buried_diff res_i res_j
                + (int (unat (get_access res_i)) + int (unat (get_access res_j)))
                + (rounded_angle_diff (get_phi_angle res_i) (get_phi_angle res_j)
                    + rounded_angle_diff (get_psi_angle res_i) (get_psi_angle res_j)) div 2
                < 2 ^ 64"
  shows "residues_have_similar_area_angle_props g res_i res_j
           = Inr (real_of_int (buried_diff res_i res_j)
                    + (real (unat (get_access res_i)) + real (unat (get_access res_j)))
                    + (real_of_int (rounded_angle_diff (get_phi_angle res_i) (get_phi_angle res_j))
                        + real_of_int (rounded_angle_diff (get_psi_angle res_i) (get_psi_angle res_j))) / 2
                  < real (unat (global_res_sim_cutoff g)))"
proof -
  define bd where "bd = nat (buried_diff res_i res_j)"
  define phi where "phi = nat (rounded_angle_diff (get_phi_angle res_i) (get_phi_angle res_j))"
  define psi where "psi = nat (rounded_angle_diff (get_psi_angle res_i) (get_psi_angle res_j))"
  define ai where "ai = unat (get_access res_i)"
  define aj where "aj = unat (get_access res_j)"
  have bd_int: "buried_diff res_i res_j = int bd"
    by (simp add: bd_def buried_diff_def)
  have phi_int: "rounded_angle_diff (get_phi_angle res_i) (get_phi_angle res_j) = int phi"
    by (simp add: phi_def rounded_angle_diff_nonneg)
  have psi_int: "rounded_angle_diff (get_psi_angle res_i) (get_psi_angle res_j) = int psi"
    by (simp add: psi_def rounded_angle_diff_nonneg)
  have ang': "phi + psi < 2 ^ 64"
  proof -
    have "int (phi + psi) < int (2 ^ 64)"
      using ang unfolding phi_int psi_int by simp
    then show ?thesis by (simp only: of_nat_less_iff)
  qed
  have tot': "bd + (ai + aj) + (phi + psi) div 2 < 2 ^ 64"
  proof -
    have "int (bd + (ai + aj) + (phi + psi) div 2) < int (2 ^ 64)"
      using tot unfolding bd_int phi_int psi_int ai_def aj_def
      by (simp add: zdiv_int)
    then show ?thesis by (simp only: of_nat_less_iff)
  qed
  have phi_lt: "int phi < 2 ^ 64" and psi_lt: "int psi < 2 ^ 64"
    using ang unfolding phi_int psi_int by simp_all
  have c1: "numeric_cast_size_t (sint (difference_int (get_accessi_of_residue res_i)
              (get_accessi_of_residue res_j))) = Inr (word_of_nat bd)"
    using sint_difference_int [of "get_accessi_of_residue res_i" "get_accessi_of_residue res_j"] bd
    by (simp add: numeric_cast_size_t_def buried_diff_def bd_def)
  have c2: "numeric_cast_size_t_of_double (std_round (difference_double
              (angle_in_degrees (get_phi_angle res_i)) (angle_in_degrees (get_phi_angle res_j))))
            = Inr (word_of_nat phi)"
    unfolding std_round_difference phi_int
    using numeric_cast_size_t_of_double_of_int [of "int phi"] phi_lt
    by simp
  have c3: "numeric_cast_size_t_of_double (std_round (difference_double
              (angle_in_degrees (get_psi_angle res_i)) (angle_in_degrees (get_psi_angle res_j))))
            = Inr (word_of_nat psi)"
    unfolding std_round_difference psi_int
    using numeric_cast_size_t_of_double_of_int [of "int psi"] psi_lt
    by simp
  have u1: "unat (word_of_nat phi + word_of_nat psi :: size_t) = phi + psi"
    using ang' by (simp add: unat_word_ariths unat_of_nat take_bit_nat_eq_self flip: of_nat_add)
  have u2: "unat ((word_of_nat phi + word_of_nat psi) div 2 :: size_t) = (phi + psi) div 2"
    by (simp add: unat_div u1)
  have u3: "unat (get_access res_i + get_access res_j) = ai + aj"
    using tot' by (simp add: unat_word_ariths ai_def aj_def take_bit_nat_eq_self)
  have u0: "unat (word_of_nat bd :: size_t) = bd"
    using tot' by (simp add: unat_of_nat take_bit_nat_eq_self)
  have u5: "unat (word_of_nat bd + (get_access res_i + get_access res_j) :: size_t)
              = bd + (ai + aj)"
    using unat_add_lem [THEN iffD1, of "word_of_nat bd :: size_t"
        "get_access res_i + get_access res_j"] tot'
    by (simp add: u0 u3)
  have u4: "unat (word_of_nat bd + (get_access res_i + get_access res_j)
                    + (word_of_nat phi + word_of_nat psi) div 2 :: size_t)
              = bd + (ai + aj) + (phi + psi) div 2"
    using unat_add_lem [THEN iffD1, of "word_of_nat bd + (get_access res_i + get_access res_j)"
        "(word_of_nat phi + word_of_nat psi) div 2 :: size_t"] tot'
    by (simp add: u5 u2)
  have "residues_have_similar_area_angle_props g res_i res_j
          = Inr (bd + (ai + aj) + (phi + psi) div 2 < unat (global_res_sim_cutoff g))"
    unfolding residues_have_similar_area_angle_props_def Let_def c1 c2 c3
    by (simp add: word_less_nat_alt u4)
  also have "(bd + (ai + aj) + (phi + psi) div 2 < unat (global_res_sim_cutoff g))
      \<longleftrightarrow> (real (bd + (ai + aj)) + (real phi + real psi) / 2 < real (unat (global_res_sim_cutoff g)))"
    by (rule mean_less_iff)
  finally show ?thesis
    unfolding bd_int phi_int psi_int ai_def aj_def by simp
qed

text \<open>
  C5, as stated, fails: the sums are those of \<^verbatim>\<open>size_t\<close>. For two residues that agree
  in their buried values and angles and have the accessibilities \<open>2 ^ 64 - 1\<close> and 1, the
  accessibility sum wraps to 0 and the code returns true with the cutoff 150, although
  the sum of the two accessibilities is \<open>2 ^ 64\<close>.
\<close>

theorem residues_have_similar_area_angle_props_wraps:
  "residues_have_similar_area_angle_props reset_ssap_global_variables
       huge_access_residue unit_access_residue = Inr True
   \<and> real (unat (global_res_sim_cutoff reset_ssap_global_variables))
       \<le> real_of_int (buried_diff huge_access_residue unit_access_residue)
           + (real (unat (get_access huge_access_residue))
               + real (unat (get_access unit_access_residue)))
           + (real_of_int (rounded_angle_diff (get_phi_angle huge_access_residue)
                             (get_phi_angle unit_access_residue))
               + real_of_int (rounded_angle_diff (get_psi_angle huge_access_residue)
                                (get_psi_angle unit_access_residue))) / 2"
  by (simp add: residues_have_similar_area_angle_props_def Let_def huge_access_residue_def
      unit_access_residue_def reset_ssap_global_variables_def difference_int_def
      difference_double_def dbl_sub_def angle_in_degrees_def std_round_def
      numeric_cast_size_t_def numeric_cast_size_t_of_double_def truncate_towards_zero_def
      buried_diff_def rounded_angle_diff_def)

text \<open>
  C5 (amended): for every pair of residues whose buried values differ by less than
  \<open>2 ^ 31\<close>, whose two rounded absolute angle differences have a sum below \<open>2 ^ 64\<close>, and
  for which the absolute difference of the buried values plus the two accessibilities
  plus the halved sum of the rounded angle differences is below \<open>2 ^ 64\<close>,
  \<open>residues_have_similar_area_angle_props\<close> returns, without raising, true if and only if
  the absolute difference of the two buried values, plus the sum of the two
  accessibilities, plus the mean of the rounded absolute differences of the phi angles
  and of the psi angles in degrees, is strictly less than the residue-similarity cutoff.
  The cutoff is 150 after a reset. For every pair of residues, in range or not, the
  outcome (the result or the exception) is the same with the two residues exchanged.
  (The code halves the sum of the two rounded differences with an integer division;
  against an integer cutoff that decides the same as the exact mean.)
\<close>

theorem residues_have_similar_area_angle_props_iff:
  assumes "buried_diff res_i res_j < 2 ^ 31"
    and "rounded_angle_diff (get_phi_angle res_i) (get_phi_angle res_j)
           + rounded_angle_diff (get_psi_angle res_i) (get_psi_angle res_j) < 2 ^ 64"
    and "buried_diff res_i res_j
           + (int (unat (get_access res_i)) + int (unat (get_access res_j)))
           + (rounded_angle_diff (get_phi_angle res_i) (get_phi_angle res_j)
               + rounded_angle_diff (get_psi_angle res_i) (get_psi_angle res_j)) div 2
           < 2 ^ 64"
  shows "residues_have_similar_area_angle_props g res_i res_j
           = Inr (real_of_int (buried_diff res_i res_j)
                    + (real (unat (get_access res_i)) + real (unat (get_access res_j)))
                    + (real_of_int (rounded_angle_diff (get_phi_angle res_i) (get_phi_angle res_j))
                        + real_of_int (rounded_angle_diff (get_psi_angle res_i) (get_psi_angle res_j))) / 2
                  < real (unat (global_res_sim_cutoff g)))
         \<and> (\<forall>x y. residues_have_similar_area_angle_props g x y
                     = residues_have_similar_area_angle_props g y x)
         \<and> global_res_sim_cutoff reset_ssap_global_variables = 150"
proof -
  note residues_have_similar_area_angle_props_in_range [OF assms]
  moreover have "\<forall>x y. residues_have_similar_area_angle_props g x y
                     = residues_have_similar_area_angle_props g y x"
    using residues_have_similar_area_angle_props_commute by blast
  moreover have "global_res_sim_cutoff reset_ssap_global_variables = 150"
    by (simp add: reset_ssap_global_variables_def)
  ultimately show ?thesis by blast
qed

lemma example_buried_diff: "buried_diff example_residue_i example_residue_j = 15"
  by (simp add: buried_diff_def example_residue_i_def example_residue_j_def)

lemma example_rounded_angle_diffs:
  "rounded_angle_diff (get_phi_angle example_residue_i) (get_phi_angle example_residue_j) = 125"
  "rounded_angle_diff (get_psi_angle example_residue_i) (get_psi_angle example_residue_j) = 20"
  using to_double_of_nat [of 125] to_double_of_nat [of 20]
  by (simp_all add: rounded_angle_diff_def angle_in_degrees_def example_residue_i_def
      example_residue_j_def)

lemma example_accesses:
  "unat (get_access example_residue_i) = 20" "unat (get_access example_residue_j) = 15"
  by (simp_all add: example_residue_i_def example_residue_j_def)

theorem residues_have_similar_area_angle_props_iff_witness:
  "buried_diff example_residue_i example_residue_j < 2 ^ 31
   \<and> residues_have_similar_area_angle_props reset_ssap_global_variables
         example_residue_i example_residue_j = Inr True
   \<and> residues_have_similar_area_angle_props reset_ssap_global_variables
         example_residue_j example_residue_i = Inr True"
  using residues_have_similar_area_angle_props_iff
    [of example_residue_i example_residue_j reset_ssap_global_variables]
  by (simp add: example_buried_diff example_rounded_angle_diffs example_accesses
      reset_ssap_global_variables_def)

subsection \<open>The accumulation of scores along the final path\<close>

lemma accumulate_along_path_snoc:
  "accumulate_along_path gc M aln (ctrs @ [k]) w
     = (case accumulate_along_path gc M aln ctrs w of
          Inl e \<Rightarrow> Inl e
        | Inr w' \<Rightarrow> accumulate_column gc M aln w' k)"
  by (induction ctrs arbitrary: w) (auto split: sum.splits)

lemma charges_gap_iff:
  assumes "walk_invariant M gap aln k w" and "has_both_positions_of_index aln k"
  shows "charges_gap w (get_a_offset_1_position_of_index aln k)
           (get_b_offset_1_position_of_index aln k) \<longleftrightarrow> gap_is_charged aln k"
  using assms
  by (auto simp: walk_invariant_def charges_gap_def gap_is_charged_def
      is_first_aligned_column_def follows_previous_column_def)

lemma walk_invariant_initial: "walk_invariant M gap aln 0 initial_path_walk"
  by (simp add: walk_invariant_def initial_path_walk_def path_score_def)

lemma walk_invariant_step:
  assumes inv: "walk_invariant M gap aln k w"
  shows "\<exists>w'. accumulate_column (Inr gap) M aln w k = Inr w' \<and> walk_invariant M gap aln (Suc k) w'"
proof (cases "has_both_positions_of_index aln k")
  case False
  then show ?thesis
    using inv by (simp add: accumulate_column_def walk_invariant_def path_score_def Let_def)
next
  case True
  note cg = charges_gap_iff [OF inv True]
  show ?thesis
    using inv True cg
    by (auto simp: accumulate_column_def walk_invariant_def path_score_def Let_def)
qed

lemma walk_invariant_upto:
  "\<exists>w. accumulate_along_path (Inr gap) M aln [0 ..< k] initial_path_walk = Inr w
       \<and> walk_invariant M gap aln k w"
proof (induction k)
  case 0
  show ?case by (simp add: walk_invariant_initial)
next
  case (Suc k)
  then obtain w where w: "accumulate_along_path (Inr gap) M aln [0 ..< k] initial_path_walk = Inr w"
    "walk_invariant M gap aln k w" by blast
  from walk_invariant_step [OF w(2)] obtain w' where
    "accumulate_column (Inr gap) M aln w k = Inr w'" "walk_invariant M gap aln (Suc k) w'" by blast
  then show ?case using w(1) by (simp add: accumulate_along_path_snoc)
qed


lemma first_aligned_column_not_charged:
  "is_first_aligned_column aln k \<Longrightarrow> \<not> gap_is_charged aln k"
  by (simp add: gap_is_charged_def)

lemma calculate_log_score_total:
  assumes gap: "numeric_cast_score_type (get_gap_penalty q) = Inr gap"
  shows "calculate_log_score cs aln pa pb q
           = Inr (scores_of_total cs aln pa pb q (fst (final_score_matrix_of q pa pb aln))
                    (length (filter (has_both_positions_of_index aln) [0 ..< aln_length aln]))
                    (max 0 (path_score (snd (final_score_matrix_of q pa pb aln)) gap aln
                              (aln_length aln))))"
proof -
  obtain w where w: "accumulate_along_path (Inr gap) (snd (final_score_matrix_of q pa pb aln)) aln
               [0 ..< aln_length aln] initial_path_walk = Inr w"
    "walk_invariant (snd (final_score_matrix_of q pa pb aln)) gap aln (aln_length aln) w"
    using walk_invariant_upto by blast
  then show ?thesis
    by (simp add: calculate_log_score_def gap Let_def walk_invariant_def)
qed

text \<open>
  C7: when the cast of the gap penalty succeeds, the walk of \<open>calculate_log_score\<close> over
  the alignment completes, and the score it has accumulated is the sum, over the aligned
  columns, of the column's cell of the final score matrix minus the gap penalty for
  exactly the charged columns: at an aligned column the code subtracts the penalty if and
  only if the column is not the first aligned column and does not immediately follow an
  aligned column with both positions one further on. The first aligned column is never
  charged. The scores are computed from the accumulated total floored at 0.
\<close>

theorem gap_penalty_along_path:
  assumes gap: "numeric_cast_score_type (get_gap_penalty q) = Inr gap"
  shows "(\<exists>w. accumulate_along_path (numeric_cast_score_type (get_gap_penalty q)) M aln
               [0 ..< aln_length aln] initial_path_walk = Inr w
            \<and> maxscore w = path_score M gap aln (aln_length aln))
       \<and> (has_both_positions_of_index aln k \<longrightarrow>
            (\<exists>w. accumulate_along_path (numeric_cast_score_type (get_gap_penalty q)) M aln
                   [0 ..< k] initial_path_walk = Inr w
                \<and> (charges_gap w (get_a_offset_1_position_of_index aln k)
                       (get_b_offset_1_position_of_index aln k) \<longleftrightarrow> gap_is_charged aln k)))
       \<and> (is_first_aligned_column aln k \<longrightarrow> \<not> gap_is_charged aln k)
       \<and> calculate_log_score cs aln pa pb q
           = Inr (scores_of_total cs aln pa pb q (fst (final_score_matrix_of q pa pb aln))
                    (length (filter (has_both_positions_of_index aln) [0 ..< aln_length aln]))
                    (max 0 (path_score (snd (final_score_matrix_of q pa pb aln)) gap aln
                              (aln_length aln))))
       \<and> 0 \<le> max 0 (path_score (snd (final_score_matrix_of q pa pb aln)) gap aln
                       (aln_length aln))"
proof -
  have 1: "\<exists>w. accumulate_along_path (numeric_cast_score_type (get_gap_penalty q)) M aln
               [0 ..< aln_length aln] initial_path_walk = Inr w
            \<and> maxscore w = path_score M gap aln (aln_length aln)"
    using walk_invariant_upto [of gap M aln "aln_length aln"]
    unfolding gap by (auto simp: walk_invariant_def)
  have 2: "has_both_positions_of_index aln k \<longrightarrow>
            (\<exists>w. accumulate_along_path (numeric_cast_score_type (get_gap_penalty q)) M aln
                   [0 ..< k] initial_path_walk = Inr w
                \<and> (charges_gap w (get_a_offset_1_position_of_index aln k)
                       (get_b_offset_1_position_of_index aln k) \<longleftrightarrow> gap_is_charged aln k))"
    using walk_invariant_upto [of gap M aln k] charges_gap_iff [of M gap aln k]
    unfolding gap by blast
  have 3: "is_first_aligned_column aln k \<longrightarrow> \<not> gap_is_charged aln k"
    by (simp add: first_aligned_column_not_charged)
  have 4: "calculate_log_score cs aln pa pb q
           = Inr (scores_of_total cs aln pa pb q (fst (final_score_matrix_of q pa pb aln))
                    (length (filter (has_both_positions_of_index aln) [0 ..< aln_length aln]))
                    (max 0 (path_score (snd (final_score_matrix_of q pa pb aln)) gap aln
                              (aln_length aln))))"
    using gap by (rule calculate_log_score_total)
  from 1 2 3 4 show ?thesis by simp
qed

lemmas example_alignment_simps =
  example_alignment_def has_both_positions_of_index_def position_of_entry_of_index_def
  PAIR_A_IDX_def PAIR_B_IDX_def get_a_offset_1_position_of_index_def
  get_b_offset_1_position_of_index_def aln_length_def
  upt_rec [of 0] upt_rec [of 1] upt_rec [of 2] upt_rec [of 3] upt_rec [of 4] upt_rec [of 5]

lemma example_gap_penalty:
  "numeric_cast_score_type (get_gap_penalty example_residue_querier) = Inr 25"
proof -
  have "to_double 25 = 25" using to_double_of_nat [of 25] by simp
  then show ?thesis
    by (simp add: get_gap_penalty_def example_residue_querier_def dbl_mul_def
        numeric_cast_score_type_def truncate_towards_zero_def)
qed

lemma example_charges:
  "is_first_aligned_column example_alignment 0"
  "\<not> gap_is_charged example_alignment 0"
  "gap_is_charged example_alignment 3"
  "\<not> gap_is_charged example_alignment 4"
  by (simp_all add: gap_is_charged_def is_first_aligned_column_def follows_previous_column_def
      example_alignment_simps)

lemma example_final_score_matrix:
  "fst (final_score_matrix_of example_residue_querier 50 60 example_alignment) = 6"
  "snd (final_score_matrix_of example_residue_querier 50 60 example_alignment) 1 1 = 14"
  "snd (final_score_matrix_of example_residue_querier 50 60 example_alignment) 3 3 = 14"
  "snd (final_score_matrix_of example_residue_querier 50 60 example_alignment) 4 4 = 14"
  by (simp_all add: final_score_matrix_of_def compare_from_column_def add_pair_score_def
      example_residue_querier_def example_alignment_simps)

lemma upt_0_5: "[0 ..< 5] = [0, 1, 2, 3, 4]"
  by code_simp

lemma example_aln_length: "aln_length example_alignment = 5"
  by (simp add: aln_length_def example_alignment_def)

lemma example_has_both:
  "has_both_positions_of_index example_alignment 0"
  "\<not> has_both_positions_of_index example_alignment 1"
  "\<not> has_both_positions_of_index example_alignment 2"
  "has_both_positions_of_index example_alignment 3"
  "has_both_positions_of_index example_alignment 4"
  by (simp_all add: example_alignment_simps)

lemma example_has_both_Suc_0:
  "\<not> has_both_positions_of_index example_alignment (Suc 0)"
  using example_has_both(2) by simp

lemma example_positions:
  "get_a_offset_1_position_of_index example_alignment 0 = 1"
  "get_b_offset_1_position_of_index example_alignment 0 = 1"
  "get_a_offset_1_position_of_index example_alignment 3 = 3"
  "get_b_offset_1_position_of_index example_alignment 3 = 3"
  "get_a_offset_1_position_of_index example_alignment 4 = 4"
  "get_b_offset_1_position_of_index example_alignment 4 = 4"
  by (simp_all add: example_alignment_simps)

lemma example_path_score:
  "path_score (snd (final_score_matrix_of example_residue_querier 50 60 example_alignment)) 25
     example_alignment (aln_length example_alignment) = 17"
  unfolding example_aln_length path_score_def upt_0_5
  by (simp add: example_has_both example_has_both_Suc_0 example_positions example_charges
      example_final_score_matrix)

theorem gap_penalty_along_path_witness:
  "numeric_cast_score_type (get_gap_penalty example_residue_querier) = Inr 25
   \<and> has_both_positions_of_index example_alignment 3
   \<and> is_first_aligned_column example_alignment 0
   \<and> \<not> gap_is_charged example_alignment 0
   \<and> gap_is_charged example_alignment 3
   \<and> \<not> gap_is_charged example_alignment 4
   \<and> calculate_log_score example_collaborators example_alignment 50 60 example_residue_querier
       = Inr (scores_of_total example_collaborators example_alignment 50 60
                example_residue_querier 6 3 17)"
proof -
  have n: "length (filter (has_both_positions_of_index example_alignment)
             [0 ..< aln_length example_alignment]) = 3"
    unfolding example_aln_length upt_0_5
    by (simp add: example_has_both example_has_both_Suc_0)
  show ?thesis
    using gap_penalty_along_path [OF example_gap_penalty, of "\<lambda>_ _. 0" example_alignment 3
        example_collaborators 50 60]
      example_gap_penalty example_charges example_has_both
    by (simp add: example_path_score example_final_score_matrix n)
qed

subsection \<open>The scores over the smaller and over the larger protein\<close>

lemma closed_form_num_comparable_mono:
  assumes "L1 \<le> L2"
  shows "closed_form_num_comparable n L1 \<le> closed_form_num_comparable n L2"
  using assms by (auto simp: closed_form_num_comparable_def intro!: mult_le_mono)

lemma num_comparable_impl_mono:
  assumes le: "L1 \<le> L2" and small: "unat L2 < 2 ^ 32"
  shows "num_comparable_impl n L1 \<le> num_comparable_impl n L2"
proof -
  have le': "unat L1 \<le> unat L2" using le by (simp add: word_le_nat_alt)
  have sq: "unat L2 * unat L2 < 2 ^ 64"
  proof -
    have "unat L2 * unat L2 < 2 ^ 32 * 2 ^ 32"
      using small by (intro mult_strict_mono) simp_all
    then show ?thesis by simp
  qed
  show ?thesis
  proof (cases "unat n < 2 ^ 64 - 1")
    case True
    have fits: "(unat L - unat n) * (unat L - unat n - 1) < 2 ^ 64"
      if "unat L \<le> unat L2" for L :: size_t
    proof -
      have "(unat L - unat n) * (unat L - unat n - 1) \<le> unat L2 * unat L2"
        using that by (intro mult_le_mono) simp_all
      then show ?thesis using sq by linarith
    qed
    have "unat (num_comparable_impl n L1) \<le> unat (num_comparable_impl n L2)"
      using closed_form_num_comparable_mono [OF le', of "unat n"]
      by (simp add: unat_num_comparable_impl [OF True fits] le')
    then show ?thesis by (simp add: word_le_nat_alt)
  next
    case False
    have "unat n < 2 ^ 64" using unsigned_less [of n, where 'a = nat] by simp
    then have "unat n = 2 ^ 64 - 1" using False by simp
    then have "word_of_nat (unat n) = (word_of_nat (2 ^ 64 - 1) :: size_t)" by simp
    then have n: "n = - 1" by simp
    have v: "unat (num_comparable_impl (- 1) L) = (if L = 0 then 0 else (unat L + 1) * unat L)"
      if "unat L \<le> unat L2" for L :: size_t
    proof (cases "L = 0")
      case True then show ?thesis by (simp add: num_comparable_impl_def)
    next
      case False
      have b: "unat L < 2 ^ 32" using that small by simp
      then have "(unat L + 1) * unat L \<le> 2 ^ 32 * (2 ^ 32 - 1)"
        by (intro mult_le_mono) simp_all
      then have lt: "(unat L + 1) * unat L < 2 ^ 64" by simp
      have "unat (L + 1) = unat L + 1" using b by (simp add: unat_word_ariths)
      then have "unat ((L + 1) * L) = (unat L + 1) * unat L"
        using lt by (simp add: unat_word_ariths)
      then show ?thesis using False by (simp add: num_comparable_impl_def)
    qed
    have m: "(unat L1 + 1) * unat L1 \<le> (unat L2 + 1) * unat L2"
      using le' by (intro mult_le_mono) simp_all
    have "L2 = 0 \<Longrightarrow> L1 = 0" using le by simp
    then have "unat (num_comparable_impl (- 1) L1) \<le> unat (num_comparable_impl (- 1) L2)"
      using m unfolding v [OF le'] v [OF order_refl] by (cases "L1 = 0"; cases "L2 = 0") simp_all
    then show ?thesis by (simp add: word_le_nat_alt n)
  qed
qed


lemma final_score_over_antimono:
  assumes ms: "0 < maxscore_value" and d1: "0 < d1" and d: "d1 \<le> d2" and ml: "0 < max_log"
  shows "final_score_over maxscore_value d2 max_log \<le> final_score_over maxscore_value d1 max_log"
proof -
  let ?x = "to_double (to_double (real_of_int maxscore_value) * 1000)"
  have "0 < to_double (real_of_int maxscore_value)" using ms by (intro to_double_pos) simp
  then have x: "0 < ?x" by (intro to_double_pos) simp
  have q: "?x / d2 \<le> ?x / d1" using x d1 d by (simp add: frac_le)
  have q2: "0 < ?x / d2" using x d1 d by simp
  have s: "to_double (?x / d2) \<le> to_double (?x / d1)" using q by (rule to_double_mono_all)
  have s2: "0 < to_double (?x / d2)" using q2 by (rule to_double_pos)
  have "ln (to_double (?x / d2)) \<le> ln (to_double (?x / d1))" using s s2 by simp
  then have "to_double (ln (to_double (?x / d2))) \<le> to_double (ln (to_double (?x / d1)))"
    by (rule to_double_mono_all)
  then have "100 * to_double (ln (to_double (?x / d2))) \<le> 100 * to_double (ln (to_double (?x / d1)))"
    by simp
  then have "to_double (100 * to_double (ln (to_double (?x / d2))))
      \<le> to_double (100 * to_double (ln (to_double (?x / d1))))"
    by (rule to_double_mono_all)
  then have "to_double (100 * to_double (ln (to_double (?x / d2)))) / max_log
      \<le> to_double (100 * to_double (ln (to_double (?x / d1)))) / max_log"
    using ml by (simp add: divide_right_mono)
  then have "to_double (to_double (100 * to_double (ln (to_double (?x / d2)))) / max_log)
      \<le> to_double (to_double (100 * to_double (ln (to_double (?x / d1)))) / max_log)"
    by (rule to_double_mono_all)
  then show ?thesis
    by (simp add: final_score_over_def dbl_div_def dbl_mul_def dbl_log_def double_of_score_def)
qed

lemma max_log_pos:
  assumes "1 \<le> optimum"
  shows "0 < dbl_log (dbl_mul optimum 1000)"
proof -
  have "to_double 1000 = 1000" using to_double_of_nat [of 1000] by simp
  moreover have "to_double 1000 \<le> to_double (optimum * 1000)"
    using assms by (intro to_double_mono_all) simp
  ultimately have "1 < to_double (optimum * 1000)" by simp
  then have "0 < ln (to_double (optimum * 1000))" by simp
  then show ?thesis unfolding dbl_log_def dbl_mul_def by (rule to_double_pos)
qed

lemma double_of_size_t_mono:
  assumes "m \<le> n"
  shows "double_of_size_t m \<le> double_of_size_t n"
proof -
  have "unat m \<le> unat n" using assms by (simp add: word_le_nat_alt)
  then have "real (unat m) \<le> real (unat n)" by (rule iffD2 [OF of_nat_le_iff])
  then show ?thesis unfolding double_of_size_t_def by (rule to_double_mono_all)
qed

lemma double_of_size_t_pos:
  assumes "0 < n"
  shows "0 < double_of_size_t n"
proof -
  have "0 < unat n" using assms by (simp add: word_less_nat_alt)
  then have "0 < real (unat n)" by (rule iffD2 [OF of_nat_0_less_iff])
  then show ?thesis unfolding double_of_size_t_def by (rule to_double_pos)
qed

text \<open>
  C9: whenever \<open>calculate_log_score\<close> sets both the score over the smaller and the score
  over the larger protein, the score over the larger is at most the score over the
  smaller. The number of comparable pairs does not decrease with the length, and the
  shared formula does not increase with its denominator, in double arithmetic as in
  exact arithmetic. The proof uses what the code's setting guarantees: the logarithm of
  1000 times the optimum single score is positive (the optimum is 50 for residues and
  133.33 for secondary structures), and the two lengths are below \<open>2\<^sup>3\<^sup>2\<close>, as the
  lengths of all proteins are for which the square matrix of
  \<open>(length_a + length_b + 10)\<^sup>2\<close> scores, which the function allocates first, fits into
  memory.
\<close>

theorem ssap_score_over_larger_le_over_smaller:
  assumes run: "calculate_log_score cs aln pa pb q = Inr s"
    and smaller: "ssap_score_over_smaller s = Some over_smaller"
    and larger: "ssap_score_over_larger s = Some over_larger"
    and optimum: "1 \<le> optimum_single_score q"
    and length_a: "unat (get_length q pa) < 2 ^ 32"
    and length_b: "unat (get_length q pb) < 2 ^ 32"
  shows "over_larger \<le> over_smaller"
proof -
  let ?min = "min (get_length q pa) (get_length q pb)"
  let ?max = "max (get_length q pa) (get_length q pb)"
  let ?ml = "dbl_log (dbl_mul (optimum_single_score q) 1000)"
  from run obtain count n mv where s: "s = scores_of_total cs aln pa pb q count n mv"
    and mv: "0 \<le> mv"
    by (auto simp: calculate_log_score_def Let_def split: sum.splits)
  from smaller have sm: "mv \<noteq> 0" "0 < num_comparable q ?min"
    "over_smaller = final_score_over mv (double_of_size_t (num_comparable q ?min)) ?ml"
    unfolding s by (auto simp: scores_of_total_def Let_def split: if_splits)
  from larger have la:
    "over_larger = final_score_over mv (double_of_size_t (num_comparable q ?max)) ?ml"
    unfolding s by (auto simp: scores_of_total_def Let_def split: if_splits)
  have "unat ?max < 2 ^ 32" using length_a length_b by (simp add: max_def)
  moreover have "?min \<le> ?max"
    by (meson max.cobounded1 min.cobounded1 order_trans)
  ultimately have "num_comparable q ?min \<le> num_comparable q ?max"
    unfolding num_comparable_def by (intro num_comparable_impl_mono)
  then have "double_of_size_t (num_comparable q ?min) \<le> double_of_size_t (num_comparable q ?max)"
    by (rule double_of_size_t_mono)
  moreover have "0 < double_of_size_t (num_comparable q ?min)"
    using sm(2) by (rule double_of_size_t_pos)
  moreover have "0 < mv" using mv sm(1) by simp
  ultimately show ?thesis
    unfolding sm(3) la using max_log_pos [OF optimum] by (intro final_score_over_antimono)
qed


lemma example_calculate_log_score:
  "calculate_log_score example_collaborators example_alignment 50 60 example_residue_querier
     = Inr (scores_of_total example_collaborators example_alignment 50 60
              example_residue_querier 6 3 17)"
proof -
  have n: "length (filter (has_both_positions_of_index example_alignment)
             [0 ..< aln_length example_alignment]) = 3"
    unfolding example_aln_length upt_0_5
    by (simp add: example_has_both example_has_both_Suc_0)
  show ?thesis
    using calculate_log_score_total [OF example_gap_penalty, of example_collaborators
        example_alignment 50 60]
    by (simp add: example_path_score example_final_score_matrix n)
qed

lemma example_scores:
  "ssap_score_over_smaller
     (scores_of_total example_collaborators example_alignment 50 60 example_residue_querier 6 3 17)
   = Some (final_score_over 17 (double_of_size_t 1980) (dbl_log (dbl_mul 50 1000)))"
  "ssap_score_over_larger
     (scores_of_total example_collaborators example_alignment 50 60 example_residue_querier 6 3 17)
   = Some (final_score_over 17 (double_of_size_t 2970) (dbl_log (dbl_mul 50 1000)))"
  by (simp_all add: scores_of_total_def example_residue_querier_def num_comparable_def
      num_comparable_impl_def Let_def)

theorem ssap_score_over_larger_le_over_smaller_witness:
  "calculate_log_score example_collaborators example_alignment 50 60 example_residue_querier
     = Inr (scores_of_total example_collaborators example_alignment 50 60
              example_residue_querier 6 3 17)
   \<and> ssap_score_over_smaller
        (scores_of_total example_collaborators example_alignment 50 60 example_residue_querier
           6 3 17)
      = Some (final_score_over 17 (double_of_size_t 1980) (dbl_log (dbl_mul 50 1000)))
   \<and> ssap_score_over_larger
        (scores_of_total example_collaborators example_alignment 50 60 example_residue_querier
           6 3 17)
      = Some (final_score_over 17 (double_of_size_t 2970) (dbl_log (dbl_mul 50 1000)))
   \<and> 1 \<le> optimum_single_score example_residue_querier
   \<and> unat (get_length example_residue_querier 50) < 2 ^ 32
   \<and> unat (get_length example_residue_querier 60) < 2 ^ 32
   \<and> final_score_over 17 (double_of_size_t 2970) (dbl_log (dbl_mul 50 1000))
      \<le> final_score_over 17 (double_of_size_t 1980) (dbl_log (dbl_mul 50 1000))"
proof -
  have h: "1 \<le> optimum_single_score example_residue_querier"
    "unat (get_length example_residue_querier 50) < 2 ^ 32"
    "unat (get_length example_residue_querier 60) < 2 ^ 32"
    by (simp_all add: example_residue_querier_def)
  from ssap_score_over_larger_le_over_smaller
    [OF example_calculate_log_score example_scores h]
  show ?thesis
    using example_calculate_log_score example_scores h by blast
qed

subsection \<open>The alignment refiner\<close>

text \<open>
  C8: \<open>iterate_step\<close> raises an exception whenever the number of proteins differs from the
  number of entries of the alignment, and \<open>iterate_step_for_alignment_split\<close> raises one
  whenever the number of entries of the split differs from that of the alignment. In both
  cases this is the whole effect: the refiner's members are as before, and none of the
  functions that build an alignment has been called, whatever they are.
\<close>

theorem refiner_rejects_mismatched_entry_counts:
  "(length arg_proteins \<noteq> num_entries arg_alignment \<longrightarrow>
      iterate_step rc st arg_alignment arg_proteins arg_view_cache_list arg_gap_penalty
        = (Inl not_implemented_exception, st))
   \<and> (get_num_entries arg_alignment_split \<noteq> num_entries arg_alignment \<longrightarrow>
      iterate_step_for_alignment_split rc st arg_alignment arg_proteins arg_view_cache_list
          arg_gap_penalty arg_alignment_split
        = (Inl not_implemented_exception, st))"
  by (simp add: iterate_step_def iterate_step_for_alignment_split_def)

theorem refiner_rejects_mismatched_entry_counts_witness:
  "length [50 :: nat] \<noteq> num_entries example_alignment
   \<and> iterate_step example_refiner_collaborators example_refiner_state example_alignment [50] () ()
       = (Inl not_implemented_exception, example_refiner_state)
   \<and> get_num_entries \<lparr> get_num_entries = 3, split_members = [0] \<rparr> \<noteq> num_entries example_alignment
   \<and> iterate_step_for_alignment_split example_refiner_collaborators example_refiner_state
         example_alignment [50, 60] () () \<lparr> get_num_entries = 3, split_members = [0] \<rparr>
       = (Inl not_implemented_exception, example_refiner_state)"
  using refiner_rejects_mismatched_entry_counts [of "[50 :: nat]" example_alignment
      example_refiner_collaborators example_refiner_state "()" "()"
      "\<lparr> get_num_entries = 3, split_members = [0] \<rparr>"]
    refiner_rejects_mismatched_entry_counts [of "[50 :: nat, 60]" example_alignment
      example_refiner_collaborators example_refiner_state "()" "()"
      "\<lparr> get_num_entries = 3, split_members = [0] \<rparr>"]
  by (simp add: example_alignment_def)

lemma iterate_loop_step:
  assumes "inserted_residues \<or> curr_alignment \<noteq> prev_alignment"
  shows "iterate_loop step iter_ctr prev_alignment curr_alignment inserted_residues st
     = (case step st curr_alignment of
          (Inl e, st') \<Rightarrow> Some (Inl e, st')
        | (Inr ins_res_and_next_aln, st') \<Rightarrow>
            if snd ins_res_and_next_aln = prev_alignment
            then Some (Inr (snd ins_res_and_next_aln), st')
            else iterate_loop step (iter_ctr + 1) curr_alignment (snd ins_res_and_next_aln)
                   (fst ins_res_and_next_aln) st')"
  using assms
  by (subst iterate_loop.simps) (auto simp: Let_def split: prod.splits sum.splits)

lemma iterate_first_step:
  "iterate rc st arg_alignment arg_proteins arg_view_cache_list arg_gap_penalty
     = (case iterate_step rc st arg_alignment arg_proteins arg_view_cache_list arg_gap_penalty of
          (Inl e, st') \<Rightarrow> Some (Inl e, st')
        | (Inr ins_res_and_next_aln, st') \<Rightarrow>
            if snd ins_res_and_next_aln = empty_alignment NUM_ENTRIES_IN_PAIR_ALIGNMENT
            then Some (Inr (snd ins_res_and_next_aln), st')
            else iterate_loop
                   (\<lambda>st' aln. iterate_step rc st' aln arg_proteins arg_view_cache_list
                                 arg_gap_penalty)
                   1 arg_alignment (snd ins_res_and_next_aln) (fst ins_res_and_next_aln) st')"
  unfolding iterate_def
  by (subst iterate_loop_step) (auto split: prod.splits sum.splits)

lemma iterate_loop_stops_on_previous:
  assumes "inserted_residues \<or> curr_alignment \<noteq> prev_alignment"
    and "step st curr_alignment = (Inr (inserted_next, prev_alignment), st')"
  shows "iterate_loop step iter_ctr prev_alignment curr_alignment inserted_residues st
           = Some (Inr prev_alignment, st')"
  using assms by (simp add: iterate_loop_step)

lemma iterate_period_two:
  assumes "iterate_step rc st aln_a arg_proteins arg_view_cache_list arg_gap_penalty
             = (Inr (inserted_first, aln_b), st_first)"
    and "iterate_step rc st_first aln_b arg_proteins arg_view_cache_list arg_gap_penalty
             = (Inr (inserted_second, aln_a), st_second)"
    and "aln_a \<noteq> aln_b"
  shows "iterate rc st aln_a arg_proteins arg_view_cache_list arg_gap_penalty
           = (if aln_b = empty_alignment NUM_ENTRIES_IN_PAIR_ALIGNMENT
              then Some (Inr aln_b, st_first) else Some (Inr aln_a, st_second))"
proof (cases "aln_b = empty_alignment NUM_ENTRIES_IN_PAIR_ALIGNMENT")
  case True
  then show ?thesis using assms(1) by (simp add: iterate_first_step)
next
  case False
  have "iterate_loop
          (\<lambda>st' aln. iterate_step rc st' aln arg_proteins arg_view_cache_list arg_gap_penalty)
          1 aln_a aln_b inserted_first st_first = Some (Inr aln_a, st_second)"
    using assms(2,3) by (intro iterate_loop_stops_on_previous) auto
  then show ?thesis using False assms(1) by (simp add: iterate_first_step)
qed

text \<open>
  C4: \<open>iterate\<close> starts its loop with the empty pair alignment as \<open>prev_alignment\<close> and
  with \<open>inserted_residues\<close> true, so it always runs \<open>iterate_step\<close> on the alignment it
  is given. Whenever the loop runs a step whose output equals \<open>prev_alignment\<close> as it is
  before the rotation, it returns that alignment, whether or not the step reports
  inserted residues. So if the step maps an alignment to a different one and that one
  back, \<open>iterate\<close> returns after at most two steps.
\<close>

theorem iterate_steps_once_and_stops_on_repetition:
  "iterate rc st arg_alignment arg_proteins arg_view_cache_list arg_gap_penalty
     = (case iterate_step rc st arg_alignment arg_proteins arg_view_cache_list arg_gap_penalty of
          (Inl e, st') \<Rightarrow> Some (Inl e, st')
        | (Inr ins_res_and_next_aln, st') \<Rightarrow>
            if snd ins_res_and_next_aln = empty_alignment NUM_ENTRIES_IN_PAIR_ALIGNMENT
            then Some (Inr (snd ins_res_and_next_aln), st')
            else iterate_loop
                   (\<lambda>st' aln. iterate_step rc st' aln arg_proteins arg_view_cache_list
                                 arg_gap_penalty)
                   1 arg_alignment (snd ins_res_and_next_aln) (fst ins_res_and_next_aln) st')
   \<and> ((inserted_residues \<or> curr_alignment \<noteq> prev_alignment)
        \<and> step st curr_alignment = (Inr (inserted_next, prev_alignment), st_next)
      \<longrightarrow> iterate_loop step iter_ctr prev_alignment curr_alignment inserted_residues st
            = Some (Inr prev_alignment, st_next))
   \<and> (iterate_step rc st aln_a arg_proteins arg_view_cache_list arg_gap_penalty
             = (Inr (inserted_first, aln_b), st_first)
        \<and> iterate_step rc st_first aln_b arg_proteins arg_view_cache_list arg_gap_penalty
             = (Inr (inserted_second, aln_a), st_second)
        \<and> aln_a \<noteq> aln_b
      \<longrightarrow> iterate rc st aln_a arg_proteins arg_view_cache_list arg_gap_penalty
            = (if aln_b = empty_alignment NUM_ENTRIES_IN_PAIR_ALIGNMENT
               then Some (Inr aln_b, st_first) else Some (Inr aln_a, st_second)))"
  using iterate_first_step [of rc st arg_alignment arg_proteins arg_view_cache_list arg_gap_penalty]
    iterate_loop_stops_on_previous [of inserted_residues curr_alignment prev_alignment step st
      inserted_next st_next iter_ctr]
    iterate_period_two [of rc st aln_a arg_proteins arg_view_cache_list arg_gap_penalty
      inserted_first aln_b st_first inserted_second st_second]
  by blast

lemma example_iterate_steps:
  "iterate_step example_refiner_collaborators example_refiner_state example_alignment
     [50, 60] () () = (Inr (True, example_alignment_b), example_refiner_state)"
  "iterate_step example_refiner_collaborators example_refiner_state example_alignment_b
     [50, 60] () () = (Inr (True, example_alignment), example_refiner_state)"
  "example_alignment \<noteq> example_alignment_b"
  "example_alignment_b \<noteq> empty_alignment NUM_ENTRIES_IN_PAIR_ALIGNMENT"
  by (simp_all add: iterate_step_def iterate_step_for_alignment_split_list_def
      iterate_step_for_alignment_split_def example_refiner_collaborators_def
      example_alignment_def example_alignment_b_def empty_alignment_def)

theorem iterate_steps_once_and_stops_on_repetition_witness:
  "iterate_step example_refiner_collaborators example_refiner_state example_alignment
     [50, 60] () () = (Inr (True, example_alignment_b), example_refiner_state)
   \<and> iterate_step example_refiner_collaborators example_refiner_state example_alignment_b
     [50, 60] () () = (Inr (True, example_alignment), example_refiner_state)
   \<and> example_alignment \<noteq> example_alignment_b
   \<and> iterate example_refiner_collaborators example_refiner_state example_alignment
        [50, 60] () () = Some (Inr example_alignment, example_refiner_state)"
  using iterate_steps_once_and_stops_on_repetition
    [where rc = example_refiner_collaborators and st = example_refiner_state
      and arg_proteins = "[50, 60]" and arg_view_cache_list = "()" and arg_gap_penalty = "()"
      and arg_alignment = example_alignment
      and aln_a = example_alignment and aln_b = example_alignment_b
      and inserted_first = True and inserted_second = True
      and st_first = example_refiner_state and st_second = example_refiner_state
      and step = "\<lambda>st aln. iterate_step example_refiner_collaborators st aln [50, 60] () ()"
      and curr_alignment = example_alignment_b and prev_alignment = example_alignment
      and inserted_residues = True and inserted_next = True
      and st_next = example_refiner_state and iter_ctr = 1]
    example_iterate_steps
  by simp

subsection \<open>The score of a squared distance\<close>


lemma quantum_nonneg [simp]: "0 \<le> quantum x"
  by (rule less_imp_le) (rule quantum_pos)























end
